theory Spec2Isabelle
  imports Complex_Main
begin

section \<open>Values shared by the grid and its scroll container\<close>

text \<open>
  The Masonry grid (class \<open>Masonry\<close>) and its helper component \<open>ScrollContainer\<close>
  are embedded as functions on explicit state. A JavaScript \<open>number\<close> is a \<open>real\<close>
  (\<open>NaN\<close> and the infinities have no counterpart), but its arithmetic is not that of
  the reals: \<open>+\<close>, \<open>-\<close> and \<open>*\<close> round their result to a double. The three operations
  are therefore parameters (\<open>add_num\<close>, \<open>sub_num\<close> and \<open>mul_num\<close> of the record \<open>Env\<close>
  below), and nothing proved here depends on what they compute; comparisons and
  \<open>Math.max\<close> are exact. A count or an index is an \<open>int\<close> or a \<open>nat\<close>, with exact
  arithmetic, and a value that may be \<open>undefined\<close> or \<open>null\<close> is an \<open>option\<close>.
  An entry of the \<open>items\<close> array is an \<open>'a option\<close>: \<open>Some x\<close> is the object \<open>x\<close>, compared
  by reference (equality on \<open>'a\<close>), and \<open>None\<close> is an \<open>undefined\<close> entry, the falsy value
  the source guards against with \<open>item &&\<close>, \<open>!!item\<close> and \<open>filter(Boolean)\<close>.
\<close>

type_synonym 'a item = "'a option"

text \<open>A DOM element or the window, by identity.\<close>

type_synonym element = nat

text \<open>A store object, by identity: the address of its contents in the heap below.\<close>

type_synonym ref = nat

definition truthy_item :: "'a item \<Rightarrow> bool" where
  "truthy_item item = (item \<noteq> None)"

text \<open>Truthiness of an optional number: \<open>undefined\<close> and \<open>0\<close> are falsy.\<close>

definition truthy_num :: "real option \<Rightarrow> bool" where
  "truthy_num n = (case n of None \<Rightarrow> False | Some x \<Rightarrow> x \<noteq> 0)"

text \<open>\<open>xs[i]\<close>: reading past the end of an array gives \<open>undefined\<close>.\<close>

definition js_nth :: "'a option list \<Rightarrow> nat \<Rightarrow> 'a option" where
  "js_nth xs i = (if i < length xs then xs ! i else None)"

text \<open>
  \<open>xs.slice(0, e)\<close> for an integral \<open>e\<close>: a negative end counts from the end of the
  array, and the result never reads outside it.
\<close>

definition js_slice0 :: "'a list \<Rightarrow> int \<Rightarrow> 'a list" where
  "js_slice0 xs e =
     (let n = int (length xs);
          k = (if e < 0 then max (n + e) 0 else min e n)
      in take (nat k) xs)"

text \<open>\<open>xs.indexOf(x)\<close>: the first index holding \<open>x\<close>, or \<open>-1\<close>.\<close>

fun indexOf :: "'a list \<Rightarrow> 'a \<Rightarrow> int" where
  "indexOf [] x = -1"
| "indexOf (y # ys) x =
     (if y = x then 0 else (let r = indexOf ys x in if r < 0 then -1 else r + 1))"

text \<open>The type \<open>Position\<close> of \<open>./Masonry/types\<close>: the rectangle given to one item.\<close>

record Position =
  top_pos :: real
  left_pos :: real
  width_pos :: real
  height_pos :: real

section \<open>Measurement store and position store\<close>

text \<open>
  Modelled from the spec: the class \<open>MeasurementStore\<close> (\<open>./Masonry/MeasurementStore\<close>) and
  the interface \<open>Cache\<close> (\<open>./Masonry/Cache\<close>) are imported by the grid but are not among the
  sources. The specification gives them as "identity-keyed mappings (Item \<open>\<rightarrow>\<close> value) with
  operations \<open>has(item)\<close>, \<open>get(item)\<close>, \<open>set(item, value)\<close>, \<open>reset()\<close> (clear all
  entries)". An \<open>undefined\<close> entry of the items array is no item and is never a key.
\<close>

type_synonym ('k, 'v) Cache = "'k \<rightharpoonup> 'v"

definition cache_has :: "('k, 'v) Cache \<Rightarrow> 'k item \<Rightarrow> bool" where
  "cache_has c item = (case item of None \<Rightarrow> False | Some k \<Rightarrow> c k \<noteq> None)"

definition cache_get :: "('k, 'v) Cache \<Rightarrow> 'k item \<Rightarrow> 'v option" where
  "cache_get c item = (case item of None \<Rightarrow> None | Some k \<Rightarrow> c k)"

definition cache_set :: "('k, 'v) Cache \<Rightarrow> 'k \<Rightarrow> 'v \<Rightarrow> ('k, 'v) Cache" where
  "cache_set c k v = c(k \<mapsto> v)"

definition cache_reset :: "('k, 'v) Cache \<Rightarrow> ('k, 'v) Cache" where
  "cache_reset c = Map.empty"

text \<open>
  Stores are objects shared between the grid and its caller, so they live in a heap and
  are held by reference: two references to one store see each other's writes.
\<close>

record 'a Heap =
  measurements :: "ref \<Rightarrow> ('a, real) Cache"
  positions :: "ref \<Rightarrow> ('a, Position) Cache"

definition resetMeasurements :: "ref \<Rightarrow> 'a Heap \<Rightarrow> 'a Heap" where
  "resetMeasurements r h = h\<lparr>measurements := (measurements h)(r := cache_reset (measurements h r))\<rparr>"

definition resetPositions :: "ref \<Rightarrow> 'a Heap \<Rightarrow> 'a Heap" where
  "resetPositions r h = h\<lparr>positions := (positions h)(r := cache_reset (positions h r))\<rparr>"

section \<open>ScrollContainer\<close>

text \<open>
  The prop \<open>scrollContainer\<close> of \<open>ScrollContainer\<close> is an element (or \<open>null\<close>) or a function
  returning one; a function is represented by what it returns when it is called.
\<close>

datatype ScrollContainerProp =
    Element "element option"
  | Accessor "element option"

fun getScrollContainer :: "ScrollContainerProp \<Rightarrow> element option" where
  "getScrollContainer (Accessor r) = r"
| "getScrollContainer (Element e) = e"

text \<open>
  The calls the component makes on the DOM, in order, and their effect: \<open>listeners\<close> is the
  set of elements on which the component's \<open>handleScroll\<close> is registered for \<open>scroll\<close>
  (registering one function twice on one element registers it once).
\<close>

datatype ListenerCall =
    AddEventListener element
  | RemoveEventListener element

record ScrollContainer =
  scrollContainer_sc :: "element option"
  listeners :: "element set"
  calls :: "ListenerCall list"

definition addEventListener :: "element \<Rightarrow> ScrollContainer \<Rightarrow> ScrollContainer" where
  "addEventListener e s =
     s\<lparr>listeners := insert e (listeners s), calls := calls s @ [AddEventListener e]\<rparr>"

definition removeEventListener :: "element \<Rightarrow> ScrollContainer \<Rightarrow> ScrollContainer" where
  "removeEventListener e s =
     s\<lparr>listeners := listeners s - {e}, calls := calls s @ [RemoveEventListener e]\<rparr>"

definition updateScrollContainer :: "element \<Rightarrow> ScrollContainer \<Rightarrow> ScrollContainer" where
  "updateScrollContainer scrollContainer s =
     (let s1 = (case scrollContainer_sc s of
                  Some old \<Rightarrow> removeEventListener old s
                | None \<Rightarrow> s);
          s2 = s1\<lparr>scrollContainer_sc := Some scrollContainer\<rparr>
      in addEventListener scrollContainer s2)"

definition sc_componentDidMount :: "ScrollContainerProp \<Rightarrow> ScrollContainer \<Rightarrow> ScrollContainer" where
  "sc_componentDidMount p s =
     (case getScrollContainer p of
        Some scrollContainer \<Rightarrow> updateScrollContainer scrollContainer s
      | None \<Rightarrow> s)"

definition sc_componentDidUpdate :: "ScrollContainerProp \<Rightarrow> ScrollContainer \<Rightarrow> ScrollContainer" where
  "sc_componentDidUpdate p s =
     (case getScrollContainer p of
        Some nextScrollContainer \<Rightarrow>
          if Some nextScrollContainer \<noteq> scrollContainer_sc s
          then updateScrollContainer nextScrollContainer s
          else s
      | None \<Rightarrow> s)"

definition sc_componentWillUnmount :: "ScrollContainer \<Rightarrow> ScrollContainer" where
  "sc_componentWillUnmount s =
     (case scrollContainer_sc s of
        Some e \<Rightarrow> removeEventListener e s
      | None \<Rightarrow> s)"

definition getScrollContainerRef :: "ScrollContainer \<Rightarrow> element option" where
  "getScrollContainerRef s = scrollContainer_sc s"

text \<open>A freshly constructed component: nothing tracked, nothing registered.\<close>

definition sc_initial :: ScrollContainer where
  "sc_initial = \<lparr>scrollContainer_sc = None, listeners = {}, calls = []\<rparr>"

text \<open>The life cycle: the component mounts, updates any number of times, and unmounts.\<close>

datatype Lifecycle =
    DidMount ScrollContainerProp
  | DidUpdate ScrollContainerProp
  | WillUnmount

fun sc_step :: "ScrollContainer \<Rightarrow> Lifecycle \<Rightarrow> ScrollContainer" where
  "sc_step s (DidMount p) = sc_componentDidMount p s"
| "sc_step s (DidUpdate p) = sc_componentDidUpdate p s"
| "sc_step s WillUnmount = sc_componentWillUnmount s"

definition sc_run :: "Lifecycle list \<Rightarrow> ScrollContainer" where
  "sc_run evs = foldl sc_step sc_initial evs"

section \<open>The grid: props, state and instance fields\<close>

datatype Align = Align_start | Align_center | Align_end

datatype Layout = Basic | BasicCentered | Flexible | ServerRenderedFlexible | UniformRow

text \<open>
  The types \<open>ColumnSpanConfig\<close>, \<open>ResponsiveModuleConfig\<close> and \<open>ModulePositioningConfig\<close>
  are declared in \<open>./Masonry/multiColumnLayout\<close>, which is not among the sources; they are
  given here as the documentation of the props describes them: a column span is a number
  or an object with one span per grid size (sm, md, lg, xl); a responsive module
  configuration is a number or an object with a minimum and a maximum span (\<open>undefined\<close>
  is \<open>None\<close>); a positioning configuration carries the batch size and the whitespace
  threshold.
\<close>

datatype ColumnSpanConfig =
    ColumnSpan int
  | ResponsiveColumnSpan int int int int

datatype ResponsiveModuleConfig =
    ModuleSpan int
  | ModuleRange int int

record ModulePositioningConfig =
  itemsBatchSize :: int
  whitespaceThreshold :: "real option"

text \<open>
  The props, after \<open>defaultProps\<close> have been applied (so \<open>align\<close>, \<open>layout\<close>,
  \<open>virtualBufferFactor\<close> and \<open>virtualize\<close> are always present). A callback prop is \<open>None\<close>
  when it is not supplied; \<open>loadItems\<close> records whether the prop is a function (its call
  is the effect \<open>LoadItems\<close> below); a store prop is the reference of the supplied store;
  \<open>scrollContainer\<close>, a function when supplied, is \<open>Some r\<close> with \<open>r\<close> what it returns.
  The experimental props are written without their leading underscore. \<open>renderItem\<close>,
  the caller's rendering of one item, is left out: nothing below depends on it.
\<close>

record 'a Props =
  align :: Align
  columnWidth :: "real option"
  gutterWidth :: "real option"
  items :: "'a item list"
  layout :: Layout
  loadItems :: bool
  measurementStore :: "ref option"
  minCols :: int
  positionStore :: "ref option"
  scrollContainer :: "element option option"
  virtualBoundsBottom :: "real option"
  virtualBoundsTop :: "real option"
  virtualBufferFactor :: real
  virtualize :: bool
  getColumnSpanConfig :: "('a item \<Rightarrow> ColumnSpanConfig) option"
  getResponsiveModuleConfigForSecondItem :: "('a item \<Rightarrow> ResponsiveModuleConfig option) option"
  getModulePositioningConfig :: "(int \<Rightarrow> int \<Rightarrow> ModulePositioningConfig option) option"
  multiColPositionAlgoV2 :: bool

record 'a State =
  gutter :: real
  hasPendingMeasurements :: bool
  isFetching :: bool
  items_st :: "'a item list"
  measurementStore_st :: ref
  scrollTop :: real
  width :: "real option"

text \<open>The grid's wrapper element, as far as the grid reads it.\<close>

record GridWrapper =
  clientWidth :: real
  boundingClientRectTop :: real

text \<open>
  One mounted grid: its props and state, its instance fields, the \<open>ScrollContainer\<close>
  child it holds through a ref, and the heap of the stores it can reach.
\<close>

record 'a Masonry =
  props :: "'a Props"
  state :: "'a State"
  containerHeight :: real
  containerOffset :: real
  gridWrapper :: "GridWrapper option"
  positionStore_this :: ref
  scrollContainer_this :: "ScrollContainer option"
  maxHeight :: real
  heap :: "'a Heap"

text \<open>
  What the grid calls but the sources do not hold, taken as parameters: the layout
  algorithm (\<open>./Masonry/getLayoutAlgorithm\<close>, which reads the measurement store and may
  read and write the position store), \<open>getColumnCount\<close>, \<open>calculateActualColumnSpan\<close> and
  the constant \<open>MULTI_COL_ITEMS_MEASURE_BATCH_SIZE\<close>, the two default gutters of
  \<open>./Masonry/getColumnCount\<close>, and the DOM readings of
  \<open>./Masonry/scrollUtils\<close>; with them, the three arithmetic operations on numbers. The call of \<open>getLayoutAlgorithm\<close> passes \<open>align\<close>,
  \<open>columnWidth\<close>, \<open>items\<close>, \<open>layout\<close>, \<open>minCols\<close> and the experimental callbacks of the
  props, the state's \<open>gutter\<close> and \<open>width\<close>, and both stores; here it receives the props
  whole, the gutter, the width, the two store references and the heap.
\<close>

record 'a Env =
  add_num :: "real \<Rightarrow> real \<Rightarrow> real"
  sub_num :: "real \<Rightarrow> real \<Rightarrow> real"
  mul_num :: "real \<Rightarrow> real \<Rightarrow> real"
  getLayoutAlgorithm ::
    "'a Props \<Rightarrow> real \<Rightarrow> real option \<Rightarrow> ref \<Rightarrow> ref \<Rightarrow> 'a Heap \<Rightarrow> 'a item list \<Rightarrow> Position list \<times> 'a Heap"
  getColumnCount :: "real \<Rightarrow> real option \<Rightarrow> real \<Rightarrow> int \<Rightarrow> Layout \<Rightarrow> int"
  calculateActualColumnSpan ::
    "int \<Rightarrow> 'a item \<Rightarrow> bool \<Rightarrow> 'a item \<Rightarrow> ResponsiveModuleConfig option \<Rightarrow> ('a item \<Rightarrow> ColumnSpanConfig) \<Rightarrow> int"
  MULTI_COL_ITEMS_MEASURE_BATCH_SIZE :: int
  DEFAULT_LAYOUT_DEFAULT_GUTTER :: real
  FULL_WIDTH_DEFAULT_GUTTER :: real
  getElementHeight :: "element \<Rightarrow> real"
  getRelativeScrollTop :: "element \<Rightarrow> real"
  getScrollPos :: "element \<Rightarrow> real"

text \<open>
  What a method asks of its surroundings: the call of the caller's \<open>loadItems\<close> with its
  \<open>from\<close> offset, a forced re-render, the animation frame that will set
  \<open>hasPendingMeasurements\<close>, and the debounced measuring of the container.
\<close>

datatype Effect =
    LoadItems nat
  | ForceUpdate
  | RequestAnimationFrame bool
  | MeasureContainerAsync

section \<open>The grid: life cycle and public methods\<close>

definition measureContainer :: "'a Env \<Rightarrow> 'a Masonry \<Rightarrow> 'a Masonry" where
  "measureContainer env c =
     (case scrollContainer_this c of
        None \<Rightarrow> c
      | Some sc \<Rightarrow>
          (case getScrollContainerRef sc of
             None \<Rightarrow> c
           | Some scrollContainerRef \<Rightarrow>
               (let c1 = c\<lparr>containerHeight := getElementHeight env scrollContainerRef\<rparr>
                in case gridWrapper c1 of
                     None \<Rightarrow> c1
                   | Some el \<Rightarrow>
                       c1\<lparr>containerOffset :=
                            add_num env (boundingClientRectTop el)
                              (getRelativeScrollTop env scrollContainerRef)\<rparr>)))"

text \<open>
  The constructor. A store prop that is absent is replaced by a new, empty store; the
  addresses \<open>newMeasurements\<close> and \<open>newPositions\<close> are where the two new stores would be
  allocated. The resize observer of the experimental dynamic heights is not represented.
\<close>

definition construct :: "'a Env \<Rightarrow> 'a Props \<Rightarrow> ref \<Rightarrow> ref \<Rightarrow> 'a Heap \<Rightarrow> 'a Masonry" where
  "construct env p newMeasurements newPositions h =
     (let (ms, h1) = (case measurementStore p of
                        Some r \<Rightarrow> (r, h)
                      | None \<Rightarrow> (newMeasurements,
                                  h\<lparr>measurements := (measurements h)(newMeasurements := Map.empty)\<rparr>));
          (ps, h2) = (case positionStore p of
                        Some r \<Rightarrow> (r, h1)
                      | None \<Rightarrow> (newPositions,
                                  h1\<lparr>positions := (positions h1)(newPositions := Map.empty)\<rparr>));
          defaultGutter = (if layout p = Flexible \<or> layout p = ServerRenderedFlexible
                           then FULL_WIDTH_DEFAULT_GUTTER env
                           else DEFAULT_LAYOUT_DEFAULT_GUTTER env)
      in \<lparr>props = p,
          state = \<lparr>gutter = (case gutterWidth p of Some g \<Rightarrow> g | None \<Rightarrow> defaultGutter),
                   hasPendingMeasurements =
                     list_ex (\<lambda>item. truthy_item item \<and> \<not> cache_has (measurements h2 ms) item) (items p),
                   isFetching = False,
                   items_st = items p,
                   measurementStore_st = ms,
                   scrollTop = 0,
                   width = None\<rparr>,
          containerHeight = 0,
          containerOffset = 0,
          gridWrapper = None,
          positionStore_this = ps,
          scrollContainer_this = None,
          maxHeight = 0,
          heap = h2\<rparr>)"

text \<open>
  \<open>componentDidUpdate(prevProps, prevState)\<close>. Only \<open>prevState.width\<close> is read of its
  arguments. The stores are reset when the previous width was known and differs from the
  current one.
\<close>

definition componentDidUpdate :: "'a State \<Rightarrow> 'a Masonry \<Rightarrow> 'a Masonry \<times> Effect list" where
  "componentDidUpdate prevState c =
     (let ms = measurementStore_st (state c);
          h = (if width prevState \<noteq> None \<and> width (state c) \<noteq> width prevState
               then resetPositions (positionStore_this c) (resetMeasurements ms (heap c))
               else heap c);
          hasPending =
            list_ex (\<lambda>item. truthy_item item \<and> \<not> cache_has (measurements h ms) item)
              (items (props c))
      in (c\<lparr>heap := h\<rparr>,
          MeasureContainerAsync #
          (if hasPending \<or> hasPending \<noteq> hasPendingMeasurements (state c) \<or> width prevState = None
           then [RequestAnimationFrame hasPending]
           else [])))"

text \<open>
  The loop of \<open>getDerivedStateFromProps\<close> over the indices of the new items. Both of its
  early returns give the same object, so the loop is the test "does it return early".
\<close>

function compareItems :: "'a item list \<Rightarrow> 'a item list \<Rightarrow> nat \<Rightarrow> bool" where
  "compareItems its stateItems i =
     (if i < length its
      then (if js_nth stateItems i = None then True
            else if js_nth its i \<noteq> js_nth stateItems i \<or> length its < length stateItems then True
            else compareItems its stateItems (i + 1))
      else False)"
  by pat_completeness auto
termination
  by (relation "measure (\<lambda>(its, stateItems, i). length its - i)") auto

declare compareItems.simps [simp del]

text \<open>The partial state \<open>getDerivedStateFromProps\<close> returns; \<open>isFetching\<close> may be absent.\<close>

record 'a Derived =
  hasPendingMeasurements_d :: bool
  isFetching_d :: "bool option"
  items_d :: "'a item list"

definition getDerivedStateFromProps :: "'a Props \<Rightarrow> 'a Heap \<Rightarrow> 'a State \<Rightarrow> 'a Derived option" where
  "getDerivedStateFromProps p h st =
     (let its = items p;
          hasPending =
            list_ex (\<lambda>item. \<not> cache_has (measurements h (measurementStore_st st)) item) its
      in if compareItems its (items_st st) 0
         then Some \<lparr>hasPendingMeasurements_d = hasPending, isFetching_d = Some False, items_d = its\<rparr>
         else if length its = 0 \<and> length (items_st st) > 0
         then Some \<lparr>hasPendingMeasurements_d = hasPending, isFetching_d = Some False, items_d = its\<rparr>
         else if hasPending \<noteq> hasPendingMeasurements st
         then Some \<lparr>hasPendingMeasurements_d = hasPending, isFetching_d = None, items_d = its\<rparr>
         else None)"

text \<open>React merges the returned object into the state; \<open>null\<close> leaves the state as it is.\<close>

definition mergeDerived :: "'a State \<Rightarrow> 'a Derived option \<Rightarrow> 'a State" where
  "mergeDerived st d =
     (case d of
        None \<Rightarrow> st
      | Some u \<Rightarrow>
          st\<lparr>hasPendingMeasurements := hasPendingMeasurements_d u,
             items_st := items_d u,
             isFetching := (case isFetching_d u of None \<Rightarrow> isFetching st | Some b \<Rightarrow> b)\<rparr>)"

definition fetchMore :: "'a Masonry \<Rightarrow> 'a Masonry \<times> Effect list" where
  "fetchMore c =
     (if loadItems (props c)
      then (c\<lparr>state := (state c)\<lparr>isFetching := True\<rparr>\<rparr>, [LoadItems (length (items (props c)))])
      else (c, []))"

definition reflow :: "'a Env \<Rightarrow> 'a Masonry \<Rightarrow> 'a Masonry \<times> Effect list" where
  "reflow env c =
     (let h1 = (case measurementStore (props c) of
                  Some ms \<Rightarrow> resetMeasurements ms (heap c)
                | None \<Rightarrow> heap c);
          h2 = resetMeasurements (measurementStore_st (state c)) h1;
          h3 = resetPositions (positionStore_this c) h2
      in (measureContainer env (c\<lparr>heap := h3\<rparr>), [ForceUpdate]))"

section \<open>The grid: rendering\<close>

text \<open>\<open>layoutNumberToCssDimension\<close>: a falsy number gives no dimension.\<close>

definition layoutNumberToCssDimension :: "real option \<Rightarrow> real option" where
  "layoutNumberToCssDimension n = (if truthy_num n then n else None)"

text \<open>
  The element \<open>renderMasonryComponent\<close> builds for one item: its key index, the two
  translations of its transform, its CSS width and height, and the item handed to
  \<open>renderItem\<close> (always with \<open>isMeasuring: false\<close>). The product \<open>left * -1\<close> only changes
  the sign, which no rounding touches.
\<close>

record 'a ItemComponent =
  key_idx :: nat
  translateX :: real
  translateY :: real
  width_css :: "real option"
  height_css :: "real option"
  itemData :: "'a item"

definition itemComponent :: "bool \<Rightarrow> 'a item \<Rightarrow> nat \<Rightarrow> Position \<Rightarrow> 'a ItemComponent" where
  "itemComponent isRtl item idx position =
     \<lparr>key_idx = idx,
      translateX = (if isRtl then left_pos position * (-1) else left_pos position),
      translateY = top_pos position,
      width_css = layoutNumberToCssDimension (Some (width_pos position)),
      height_css = layoutNumberToCssDimension (Some (height_pos position)),
      itemData = item\<rparr>"

text \<open>
  The two bounds of the buffered viewport, as \<open>renderMasonryComponent\<close> computes them
  from \<open>offsetScrollPos = scrollTop - containerOffset\<close> and
  \<open>virtualBuffer = containerHeight * virtualBufferFactor\<close>: an override that is falsy
  (absent or \<open>0\<close>) falls back to the buffer.
\<close>

definition viewportTop :: "'a Env \<Rightarrow> 'a Masonry \<Rightarrow> real" where
  "viewportTop env c =
     (let virtualBuffer = mul_num env (containerHeight c) (virtualBufferFactor (props c));
          offsetScrollPos = sub_num env (scrollTop (state c)) (containerOffset c)
      in case virtualBoundsTop (props c) of
           None \<Rightarrow> sub_num env offsetScrollPos virtualBuffer
         | Some b \<Rightarrow>
             if b \<noteq> 0 then sub_num env offsetScrollPos b
             else sub_num env offsetScrollPos virtualBuffer)"

definition viewportBottom :: "'a Env \<Rightarrow> 'a Masonry \<Rightarrow> real" where
  "viewportBottom env c =
     (let virtualBuffer = mul_num env (containerHeight c) (virtualBufferFactor (props c));
          offsetScrollPos = sub_num env (scrollTop (state c)) (containerOffset c)
      in case virtualBoundsBottom (props c) of
           None \<Rightarrow> add_num env (add_num env offsetScrollPos (containerHeight c)) virtualBuffer
         | Some b \<Rightarrow>
             if b \<noteq> 0 then add_num env (add_num env offsetScrollPos (containerHeight c)) b
             else add_num env (add_num env offsetScrollPos (containerHeight c)) virtualBuffer)"

definition isVisible :: "'a Env \<Rightarrow> 'a Masonry \<Rightarrow> Position \<Rightarrow> bool" where
  "isVisible env c position =
     (if scrollContainer (props c) \<noteq> None \<and> virtualBufferFactor (props c) \<noteq> 0
      then \<not> (add_num env (top_pos position) (height_pos position) < viewportTop env c
              \<or> top_pos position > viewportBottom env c)
      else True)"

text \<open>
  \<open>renderMasonryComponent\<close>: \<open>None\<close> is the \<open>null\<close> returned for an item that is not
  rendered. \<open>isRtl\<close> is the reading of \<open>document.dir\<close>.
\<close>

definition renderMasonryComponent ::
  "'a Env \<Rightarrow> 'a Masonry \<Rightarrow> bool \<Rightarrow> 'a item \<Rightarrow> nat \<Rightarrow> Position \<Rightarrow> 'a ItemComponent option" where
  "renderMasonryComponent env c isRtl item idx position =
     (if virtualize (props c)
      then (if isVisible env c position then Some (itemComponent isRtl item idx position) else None)
      else Some (itemComponent isRtl item idx position))"

text \<open>The measurement store the grid reads: the one its state holds.\<close>

definition measurementCache :: "'a Masonry \<Rightarrow> ('a, real) Cache" where
  "measurementCache c = measurements (heap c) (measurementStore_st (state c))"

definition positionCache :: "'a Masonry \<Rightarrow> ('a, Position) Cache" where
  "positionCache c = positions (heap c) (positionStore_this c)"

definition itemsToRender :: "'a Masonry \<Rightarrow> 'a item list" where
  "itemsToRender c =
     filter (\<lambda>item. truthy_item item \<and> cache_has (measurementCache c) item) (items (props c))"

definition itemsWithoutMeasurements :: "'a Masonry \<Rightarrow> 'a item list" where
  "itemsWithoutMeasurements c =
     filter (\<lambda>item. \<not> cache_has (measurementCache c) item) (items (props c))"

text \<open>
  \<open>_getColumnSpanConfig && itemsWithoutMeasurements.find(...)\<close>: \<open>None\<close> when the prop is
  absent, when no item is found, and when the item found is an \<open>undefined\<close> entry.
\<close>

definition nextMultiColumnItem :: "'a Masonry \<Rightarrow> 'a item" where
  "nextMultiColumnItem c =
     (case getColumnSpanConfig (props c) of
        None \<Rightarrow> None
      | Some f \<Rightarrow>
          (case find (\<lambda>item. f item \<noteq> ColumnSpan 1) (itemsWithoutMeasurements c) of
             None \<Rightarrow> None
           | Some item \<Rightarrow> item))"

definition nextMultiColumnItemIndex :: "'a Masonry \<Rightarrow> int" where
  "nextMultiColumnItemIndex c = indexOf (itemsWithoutMeasurements c) (nextMultiColumnItem c)"

definition truthy_config :: "ResponsiveModuleConfig option \<Rightarrow> bool" where
  "truthy_config r =
     (case r of None \<Rightarrow> False | Some (ModuleSpan n) \<Rightarrow> n \<noteq> 0 | Some (ModuleRange lo hi) \<Rightarrow> True)"

text \<open>
  The values \<open>render\<close> computes for a pending multi-column item \<open>x\<close>, in the branch where
  the width \<open>w\<close> is known: the grid size, the responsive configuration of the second
  item, whether \<open>x\<close> is the flexible-width item, the module size, and the
  \<open>itemsBatchSize\<close> of the positioning configuration (the constant when the prop is absent
  or returns nothing).
\<close>

definition gridSize :: "'a Env \<Rightarrow> 'a Masonry \<Rightarrow> real \<Rightarrow> int" where
  "gridSize env c w =
     getColumnCount env (gutter (state c)) (columnWidth (props c)) w (minCols (props c))
       (layout (props c))"

definition responsiveModuleConfigForSecondItem :: "'a Masonry \<Rightarrow> ResponsiveModuleConfig option" where
  "responsiveModuleConfigForSecondItem c =
     (case getResponsiveModuleConfigForSecondItem (props c) of
        None \<Rightarrow> None
      | Some g \<Rightarrow>
          if truthy_item (js_nth (items (props c)) 1) then g (js_nth (items (props c)) 1) else None)"

definition isFlexibleWidthItem :: "'a Masonry \<Rightarrow> 'a \<Rightarrow> bool" where
  "isFlexibleWidthItem c x =
     (truthy_config (responsiveModuleConfigForSecondItem c) \<and> Some x = js_nth (items (props c)) 1)"

definition moduleSize :: "'a Env \<Rightarrow> 'a Masonry \<Rightarrow> real \<Rightarrow> ('a item \<Rightarrow> ColumnSpanConfig) \<Rightarrow> 'a \<Rightarrow> int" where
  "moduleSize env c w f x =
     calculateActualColumnSpan env (gridSize env c w) (js_nth (items (props c)) 0)
       (isFlexibleWidthItem c x) (Some x) (responsiveModuleConfigForSecondItem c) f"

definition positioningBatchSize ::
  "'a Env \<Rightarrow> 'a Masonry \<Rightarrow> real \<Rightarrow> ('a item \<Rightarrow> ColumnSpanConfig) \<Rightarrow> 'a \<Rightarrow> int" where
  "positioningBatchSize env c w f x =
     (case getModulePositioningConfig (props c) of
        None \<Rightarrow> MULTI_COL_ITEMS_MEASURE_BATCH_SIZE env
      | Some g \<Rightarrow>
          (case g (gridSize env c w) (moduleSize env c w f x) of
             None \<Rightarrow> MULTI_COL_ITEMS_MEASURE_BATCH_SIZE env
           | Some cfg \<Rightarrow> itemsBatchSize cfg))"

text \<open>
  \<open>batchSize\<close> of \<open>render\<close>: it stays \<open>undefined\<close> (\<open>None\<close>) when there is no pending
  multi-column item and when that item is the flexible-width second item.
\<close>

definition batchSize :: "'a Env \<Rightarrow> 'a Masonry \<Rightarrow> real \<Rightarrow> int option" where
  "batchSize env c w =
     (case getColumnSpanConfig (props c) of
        None \<Rightarrow> None
      | Some f \<Rightarrow>
          (case nextMultiColumnItem c of
             None \<Rightarrow> None
           | Some x \<Rightarrow>
               if \<not> isFlexibleWidthItem c x
               then Some (positioningBatchSize env c w f x)
               else None))"

definition itemsToMeasureCount :: "'a Env \<Rightarrow> 'a Masonry \<Rightarrow> real \<Rightarrow> int" where
  "itemsToMeasureCount env c w =
     (case batchSize env c w of
        None \<Rightarrow> minCols (props c)
      | Some b \<Rightarrow>
          if b \<noteq> 0 \<and> nextMultiColumnItemIndex c \<le> b then b + 1 else minCols (props c))"

definition itemsToMeasure :: "'a Env \<Rightarrow> 'a Masonry \<Rightarrow> real \<Rightarrow> 'a item list" where
  "itemsToMeasure env c w =
     js_slice0
       (filter (\<lambda>item. truthy_item item \<and> \<not> cache_has (measurementCache c) item) (items (props c)))
       (itemsToMeasureCount env c w)"

text \<open>
  The height of the grid and the update of \<open>this.maxHeight\<close>:
  \<open>Math.max(...positions.map(pos => pos.top + pos.height), this.maxHeight)\<close> when there
  are positions, \<open>0\<close> when there are none.
\<close>

definition layoutHeight :: "'a Env \<Rightarrow> Position list \<Rightarrow> real \<Rightarrow> real" where
  "layoutHeight env ps m =
     (if ps \<noteq> []
      then fold max (map (\<lambda>pos. add_num env (top_pos pos) (height_pos pos)) ps) m
      else 0)"

definition nextMaxHeight :: "'a Env \<Rightarrow> Position list \<Rightarrow> real \<Rightarrow> real" where
  "nextMaxHeight env ps m =
     (let height = layoutHeight env ps m in if height > m \<or> ps = [] then height else m)"

text \<open>
  What \<open>render\<close> returns. \<open>HydrationList\<close> is the list rendered while the width is unknown
  and measurements are pending (one entry per truthy item: the item, its column span
  configuration and its CSS width); \<open>WidthProbe\<close> is the empty element that only collects
  the width; \<open>FullLayout\<close> holds the grid's height, the positioned items (\<open>None\<close> for an
  item that is not rendered), the items rendered hidden for measurement (each with its
  index and its position) and the props of \<open>FetchItems\<close> when a scroll container is held.
\<close>

record FetchItemsProps =
  containerHeight_f :: real
  isFetching_f :: bool
  scrollHeight_f :: real
  scrollTop_f :: real

record 'a Layouted =
  height_l :: real
  rendered :: "'a ItemComponent option list"
  measuring :: "('a item \<times> nat \<times> Position) list"
  fetchItems :: "FetchItemsProps option"

datatype 'a GridBody =
    HydrationList "('a item \<times> ColumnSpanConfig \<times> real option) list"
  | WidthProbe
  | FullLayout "'a Layouted"

text \<open>\<open>wrapped\<close>: whether the body is wrapped in a \<open>ScrollContainer\<close>.\<close>

record 'a Rendered =
  wrapped :: bool
  gridBody :: "'a GridBody"

text \<open>Reading a field of an \<open>undefined\<close> position throws.\<close>

datatype Error = TypeError

text \<open>The width given to an item of the hydration list.\<close>

definition hydrationWidth :: "'a Env \<Rightarrow> 'a Masonry \<Rightarrow> ColumnSpanConfig \<Rightarrow> real option" where
  "hydrationWidth env c columnSpanConfig =
     (case columnSpanConfig of
        ResponsiveColumnSpan sm md lg xl \<Rightarrow> None
      | ColumnSpan n \<Rightarrow>
          if layout (props c) = Flexible \<or> layout (props c) = ServerRenderedFlexible then None
          else layoutNumberToCssDimension
                 (case columnWidth (props c) of
                    None \<Rightarrow> None
                  | Some cw \<Rightarrow>
                      Some (add_num env (mul_num env cw (real_of_int n))
                              (mul_num env (gutter (state c)) (sub_num env (real_of_int n) 1)))))"

definition hydrationList ::
  "'a Env \<Rightarrow> 'a Masonry \<Rightarrow> ('a item \<times> ColumnSpanConfig \<times> real option) list" where
  "hydrationList env c =
     map (\<lambda>item.
            (let columnSpanConfig =
                   (case getColumnSpanConfig (props c) of None \<Rightarrow> ColumnSpan 1 | Some f \<Rightarrow> f item)
             in (item, columnSpanConfig, hydrationWidth env c columnSpanConfig)))
       (filter truthy_item (items (props c)))"

text \<open>
  \<open>getPositions\<close>, the function \<open>render\<close> obtains from \<open>getLayoutAlgorithm\<close>, and the
  positions it computes for the measured items.
\<close>

definition getPositions :: "'a Env \<Rightarrow> 'a Masonry \<Rightarrow> 'a Heap \<Rightarrow> 'a item list \<Rightarrow> Position list \<times> 'a Heap" where
  "getPositions env c =
     getLayoutAlgorithm env (props c) (gutter (state c)) (width (state c))
       (measurementStore_st (state c)) (positionStore_this c)"

definition renderedPositions :: "'a Env \<Rightarrow> 'a Masonry \<Rightarrow> Position list" where
  "renderedPositions env c = fst (getPositions env c (heap c) (itemsToRender c))"

text \<open>
  \<open>render\<close>. It assigns \<open>this.maxHeight\<close> and runs the layout algorithm, which may write
  the position store, so it returns the grid with what it returns; an error leaves the
  assignments made before it in place. The ref callbacks that store the measured heights
  run after the render and are not part of it.
\<close>

definition render :: "'a Env \<Rightarrow> bool \<Rightarrow> 'a Masonry \<Rightarrow> 'a Masonry \<times> (Error + 'a Rendered)" where
  "render env isRtl c =
     (let wrap = (\<lambda>body. \<lparr>wrapped = (scrollContainer (props c) \<noteq> None), gridBody = body\<rparr>)
      in case width (state c) of
           None \<Rightarrow>
             if hasPendingMeasurements (state c)
             then (c, Inr (wrap (HydrationList (hydrationList env c))))
             else (c, Inr (wrap WidthProbe))
         | Some w \<Rightarrow>
             (let toRender = itemsToRender c;
                  toMeasure = itemsToMeasure env c w;
                  (ps, h1) = getPositions env c (heap c) toRender;
                  (measuringPositions, h2) = getPositions env c h1 toMeasure;
                  height = layoutHeight env ps (maxHeight c);
                  c1 = c\<lparr>maxHeight := nextMaxHeight env ps (maxHeight c), heap := h2\<rparr>;
                  renderedItems =
                    those (map (\<lambda>(i, item).
                                  map_option (renderMasonryComponent env c1 isRtl item i)
                                    (case cache_get (positionCache c1) item of
                                       Some pos \<Rightarrow> Some pos
                                     | None \<Rightarrow> (if i < length ps then Some (ps ! i) else None)))
                             (enumerate 0 toRender));
                  measuringItems =
                    those (map (\<lambda>(i, item).
                                  map_option (\<lambda>pos. (item, length toRender + i, pos))
                                    (if i < length measuringPositions
                                     then Some (measuringPositions ! i) else None))
                             (enumerate 0 toMeasure))
              in case (renderedItems, measuringItems) of
                   (Some rs, Some ms) \<Rightarrow>
                     (c1, Inr (wrap (FullLayout
                        \<lparr>height_l = height,
                         rendered = rs,
                         measuring = ms,
                         fetchItems =
                           (if scrollContainer_this c1 \<noteq> None
                            then Some \<lparr>containerHeight_f = containerHeight c1,
                                       isFetching_f = (isFetching (state c1) \<or> hasPendingMeasurements (state c1)),
                                       scrollHeight_f = add_num env height (containerOffset c1),
                                       scrollTop_f = scrollTop (state c1)\<rparr>
                            else None)\<rparr>)))
                 | _ \<Rightarrow> (c1, Inl TypeError)))"

section \<open>The grid as a state machine\<close>

text \<open>
  React calls \<open>getDerivedStateFromProps\<close> with the current props and state before every
  render, whether new props, a \<open>setState\<close> or a \<open>forceUpdate\<close> caused it.
\<close>

definition derive :: "'a Masonry \<Rightarrow> 'a Masonry" where
  "derive c = c\<lparr>state := mergeDerived (state c) (getDerivedStateFromProps (props c) (heap c) (state c))\<rparr>"

text \<open>\<open>componentDidMount\<close>: measure the container, read the scroll position and the width.\<close>

definition componentDidMount :: "'a Env \<Rightarrow> 'a Masonry \<Rightarrow> 'a Masonry" where
  "componentDidMount env c =
     (let c1 = measureContainer env c;
          st = state c1;
          scrollTop' =
            (case scrollContainer_this c1 of
               None \<Rightarrow> scrollTop st
             | Some sc \<Rightarrow>
                 (case getScrollContainerRef sc of
                    None \<Rightarrow> scrollTop st
                  | Some el \<Rightarrow> getScrollPos env el))
      in c1\<lparr>state := st\<lparr>scrollTop := scrollTop',
                          width := (case gridWrapper c1 of
                                      Some g \<Rightarrow> Some (clientWidth g)
                                    | None \<Rightarrow> width st)\<rparr>\<rparr>)"

text \<open>The debounced \<open>handleResize\<close> and the throttled \<open>updateScrollPosition\<close>, when they fire.\<close>

definition handleResize :: "'a Masonry \<Rightarrow> 'a Masonry" where
  "handleResize c =
     (case gridWrapper c of
        Some g \<Rightarrow> c\<lparr>state := (state c)\<lparr>width := Some (clientWidth g)\<rparr>\<rparr>
      | None \<Rightarrow> c)"

definition updateScrollPosition :: "'a Env \<Rightarrow> 'a Masonry \<Rightarrow> 'a Masonry" where
  "updateScrollPosition env c =
     (case scrollContainer_this c of
        None \<Rightarrow> c
      | Some sc \<Rightarrow>
          (case getScrollContainerRef sc of
             None \<Rightarrow> c
           | Some el \<Rightarrow> c\<lparr>state := (state c)\<lparr>scrollTop := getScrollPos env el\<rparr>\<rparr>))"

text \<open>
  The ref callback of an element rendered for measurement:
  \<open>measurementStore.set(item, el.clientHeight)\<close>, with the height the DOM reports.
\<close>

definition setMeasurement :: "'a \<Rightarrow> real \<Rightarrow> 'a Masonry \<Rightarrow> 'a Masonry" where
  "setMeasurement x clientHeight c =
     (let ms = measurementStore_st (state c); h = heap c
      in c\<lparr>heap := h\<lparr>measurements := (measurements h)(ms := cache_set (measurements h ms) x clientHeight)\<rparr>\<rparr>)"

text \<open>
  Everything that changes a mounted grid: new props from the caller, \<open>fetchMore\<close> (called
  by \<open>FetchItems\<close>), the timers and the animation frame when they fire, \<open>reflow\<close>, the
  life-cycle methods, a change of the wrapper element, a render, the measurement of an
  item by its ref callback, and the callback of the resize observer. The last one runs
  \<open>recalcHeights\<close> or \<open>recalcHeightsV2\<close>, which are not among the sources: the event
  carries the heap they leave behind and whether they ask for an update. An event that
  sets state or forces an update is followed by \<open>getDerivedStateFromProps\<close>.
\<close>

datatype 'a Event =
    ReceiveProps "'a Props"
  | FetchMore
  | HandleResize
  | UpdateScrollPosition
  | AnimationFrame bool
  | Reflow
  | ComponentDidMount
  | ComponentDidUpdate "'a State"
  | SetGridWrapperRef "GridWrapper option"
  | MeasureContainer
  | Render bool
  | ItemMeasured 'a real
  | HeightsObserved "'a Heap" bool

fun step :: "'a Env \<Rightarrow> 'a Masonry \<Rightarrow> 'a Event \<Rightarrow> 'a Masonry" where
  "step env c (ReceiveProps p) = derive (c\<lparr>props := p\<rparr>)"
| "step env c FetchMore = derive (fst (fetchMore c))"
| "step env c HandleResize = derive (handleResize c)"
| "step env c UpdateScrollPosition = derive (updateScrollPosition env c)"
| "step env c (AnimationFrame b) = derive (c\<lparr>state := (state c)\<lparr>hasPendingMeasurements := b\<rparr>\<rparr>)"
| "step env c Reflow = derive (fst (reflow env c))"
| "step env c ComponentDidMount = derive (componentDidMount env c)"
| "step env c (ComponentDidUpdate prevState) = fst (componentDidUpdate prevState c)"
| "step env c (SetGridWrapperRef g) = c\<lparr>gridWrapper := g\<rparr>"
| "step env c MeasureContainer = measureContainer env c"
| "step env c (Render isRtl) = fst (render env isRtl c)"
| "step env c (ItemMeasured x clientHeight) = setMeasurement x clientHeight c"
| "step env c (HeightsObserved h triggerUpdate) =
     (if triggerUpdate then derive (c\<lparr>heap := h\<rparr>) else c\<lparr>heap := h\<rparr>)"

section \<open>A sample grid\<close>

text \<open>
  A grid of three items with measured heights 100, 150 and 80, 900 pixels wide, inside
  a scroll container 500 pixels high that is scrolled to 1000, with virtualization on.
  The sample layout algorithm puts every item at the top, with its measured height, and
  the sample arithmetic is exact (as that of doubles is on the numbers used).
\<close>

definition sampleProps :: "nat Props" where
  "sampleProps =
     \<lparr>align = Align_center, columnWidth = Some 236, gutterWidth = None,
      items = [Some 1, Some 2, Some 3], layout = Basic, loadItems = True,
      measurementStore = None, minCols = 3, positionStore = None,
      scrollContainer = Some (Some 7), virtualBoundsBottom = None, virtualBoundsTop = None,
      virtualBufferFactor = 1 / 2, virtualize = True, getColumnSpanConfig = None,
      getResponsiveModuleConfigForSecondItem = None, getModulePositioningConfig = None,
      multiColPositionAlgoV2 = False\<rparr>"

definition sampleState :: "nat State" where
  "sampleState =
     \<lparr>gutter = 14, hasPendingMeasurements = False, isFetching = False,
      items_st = [Some 1, Some 2, Some 3], measurementStore_st = 0, scrollTop = 1000,
      width = Some 900\<rparr>"

definition sampleHeap :: "nat Heap" where
  "sampleHeap =
     \<lparr>measurements = (\<lambda>r. Map.empty)(0 := [1 \<mapsto> 100, 2 \<mapsto> 150, 3 \<mapsto> 80]),
      positions = (\<lambda>r. Map.empty)\<rparr>"

definition sampleGrid :: "nat Masonry" where
  "sampleGrid =
     \<lparr>props = sampleProps, state = sampleState, containerHeight = 500, containerOffset = 0,
      gridWrapper = Some \<lparr>clientWidth = 900, boundingClientRectTop = 0\<rparr>,
      positionStore_this = 1,
      scrollContainer_this = Some (sc_run [DidMount (Accessor (Some 7))]),
      maxHeight = 0, heap = sampleHeap\<rparr>"

definition sampleEnv :: "nat Env" where
  "sampleEnv =
     \<lparr>add_num = (\<lambda>a b. a + b),
      sub_num = (\<lambda>a b. a - b),
      mul_num = (\<lambda>a b. a * b),
      getLayoutAlgorithm =
        (\<lambda>p g w ms ps h its.
           (map (\<lambda>item. \<lparr>top_pos = 0, left_pos = 0, width_pos = 236,
                          height_pos = (case cache_get (measurements h ms) item of
                                          Some x \<Rightarrow> x | None \<Rightarrow> 0)\<rparr>) its, h)),
      getColumnCount = (\<lambda>g cw w m l. 3),
      calculateActualColumnSpan = (\<lambda>n first flexible item r f. 2),
      MULTI_COL_ITEMS_MEASURE_BATCH_SIZE = 5,
      DEFAULT_LAYOUT_DEFAULT_GUTTER = 14,
      FULL_WIDTH_DEFAULT_GUTTER = 0,
      getElementHeight = (\<lambda>e. 500),
      getRelativeScrollTop = (\<lambda>e. 0),
      getScrollPos = (\<lambda>e. 1000)\<rparr>"

text \<open>Variants of the sample grid, one for each situation examined below.\<close>

definition samplePosition :: "real \<Rightarrow> Position" where
  "samplePosition t = \<lparr>top_pos = t, left_pos = 0, width_pos = 236, height_pos = 100\<rparr>"

text \<open>The buffer factor is zero and both bounds are overridden.\<close>

definition zeroFactorGrid :: "nat Masonry" where
  "zeroFactorGrid =
     sampleGrid\<lparr>props := sampleProps\<lparr>virtualBufferFactor := 0, virtualBoundsTop := Some 100,
                                       virtualBoundsBottom := Some 100\<rparr>\<rparr>"

text \<open>Virtualization is requested without a scroll container.\<close>

definition noContainerGrid :: "nat Masonry" where
  "noContainerGrid =
     sampleGrid\<lparr>props := sampleProps\<lparr>scrollContainer := None\<rparr>, scrollContainer_this := None\<rparr>"

text \<open>The position store holds the position of item 1.\<close>

definition positionedGrid :: "nat Masonry" where
  "positionedGrid =
     sampleGrid\<lparr>heap := sampleHeap\<lparr>positions := (\<lambda>r. Map.empty)(1 := [1 \<mapsto> samplePosition 0])\<rparr>\<rparr>"

text \<open>
  The caller's props name a measurement store (5, holding item 9) other than the one the
  state holds (0), as after a change of the prop.
\<close>

definition externalStoreGrid :: "nat Masonry" where
  "externalStoreGrid =
     positionedGrid\<lparr>props := sampleProps\<lparr>measurementStore := Some 5\<rparr>,
                    heap := (heap positionedGrid)
                      \<lparr>measurements := (measurements (heap positionedGrid))(5 := [9 \<mapsto> 40])\<rparr>\<rparr>"

text \<open>The items are gone, after an earlier pass recorded a maximum height of 400.\<close>

definition emptiedGrid :: "nat Masonry" where
  "emptiedGrid = sampleGrid\<lparr>maxHeight := 400, props := sampleProps\<lparr>items := []\<rparr>\<rparr>"

text \<open>A fourth item has arrived and is not measured yet.\<close>

definition unmeasuredGrid :: "nat Masonry" where
  "unmeasuredGrid =
     sampleGrid\<lparr>props := sampleProps\<lparr>items := [Some 1, Some 2, Some 3, Some 4]\<rparr>\<rparr>"

text \<open>Six unmeasured items, the second of which (item 5) spans two columns.\<close>

definition multiColumnGrid :: "nat Masonry" where
  "multiColumnGrid =
     sampleGrid\<lparr>props := sampleProps
       \<lparr>items := [Some 1, Some 2, Some 3, Some 4, Some 5, Some 6, Some 7, Some 8, Some 9],
        getColumnSpanConfig := Some (\<lambda>item. if item = Some 5 then ColumnSpan 2 else ColumnSpan 1)\<rparr>\<rparr>"





text \<open>
  Six unmeasured items, the first of which (item 4) spans two columns, with a positioning
  configuration whose batch size is 0.
\<close>

definition zeroBatchGrid :: "nat Masonry" where
  "zeroBatchGrid =
     sampleGrid\<lparr>props := sampleProps
       \<lparr>items := [Some 1, Some 2, Some 3, Some 4, Some 5, Some 6, Some 7, Some 8, Some 9],
        getColumnSpanConfig := Some (\<lambda>item. if item = Some 4 then ColumnSpan 2 else ColumnSpan 1),
        getModulePositioningConfig :=
          Some (\<lambda>g m. Some \<lparr>itemsBatchSize = 0, whitespaceThreshold = None\<rparr>)\<rparr>\<rparr>"

text \<open>
  Seven unmeasured items; the second (item 5) spans two columns and has a responsive
  configuration, so it is the flexible-width item.
\<close>

definition flexibleGrid :: "nat Masonry" where
  "flexibleGrid =
     sampleGrid\<lparr>props := sampleProps
       \<lparr>items := [Some 4, Some 5, Some 6, Some 7, Some 8, Some 9, Some 10],
        getColumnSpanConfig := Some (\<lambda>item. if item = Some 5 then ColumnSpan 2 else ColumnSpan 1),
        getResponsiveModuleConfigForSecondItem := Some (\<lambda>item. Some (ModuleRange 2 4))\<rparr>\<rparr>"

text \<open>Three unmeasured items and a minimum column count of -1.\<close>

definition negativeMinColsGrid :: "nat Masonry" where
  "negativeMinColsGrid =
     sampleGrid\<lparr>props := sampleProps
       \<lparr>items := [Some 1, Some 2, Some 3, Some 4, Some 5, Some 6], minCols := - 1\<rparr>\<rparr>"

section \<open>Theorems\<close>

subsection \<open>Stores\<close>

lemma cache_has_empty: "\<not> cache_has Map.empty item"
  by (simp add: cache_has_def split: option.splits)

lemma measurements_resetMeasurements:
  "measurements (resetMeasurements r h) r' = (if r' = r then Map.empty else measurements h r')"
  by (simp add: resetMeasurements_def cache_reset_def)

lemma positions_resetPositions:
  "positions (resetPositions r h) r' = (if r' = r then Map.empty else positions h r')"
  by (simp add: resetPositions_def cache_reset_def)

lemma measurements_resetPositions: "measurements (resetPositions r h) = measurements h"
  by (simp add: resetPositions_def)

subsection \<open>What the methods leave alone\<close>

lemma measureContainer_frame:
  "heap (measureContainer env c) = heap c \<and> state (measureContainer env c) = state c
   \<and> props (measureContainer env c) = props c
   \<and> positionStore_this (measureContainer env c) = positionStore_this c
   \<and> maxHeight (measureContainer env c) = maxHeight c"
  by (simp add: measureContainer_def Let_def split: option.splits)

lemma render_frame:
  "state (fst (render env isRtl c)) = state c \<and> props (fst (render env isRtl c)) = props c"
  by (simp add: render_def Let_def split: option.splits prod.splits)

subsection \<open>The sample grid, field by field\<close>

lemma sample_fields:
  "state sampleGrid = sampleState \<and> props sampleGrid = sampleProps \<and> maxHeight sampleGrid = 0
   \<and> heap sampleGrid = sampleHeap \<and> positionStore_this sampleGrid = 1"
  by (simp add: sampleGrid_def)

lemma sampleState_fields:
  "width sampleState = Some 900 \<and> items_st sampleState = [Some 1, Some 2, Some 3]
   \<and> \<not> isFetching sampleState \<and> measurementStore_st sampleState = 0 \<and> gutter sampleState = 14"
  by (simp add: sampleState_def)

lemma sampleProps_fields:
  "items sampleProps = [Some 1, Some 2, Some 3] \<and> loadItems sampleProps \<and> minCols sampleProps = 3
   \<and> getColumnSpanConfig sampleProps = None \<and> measurementStore sampleProps = None"
  by (simp add: sampleProps_def)

lemma sample_renderedPositions:
  "renderedPositions sampleEnv sampleGrid =
     [\<lparr>top_pos = 0, left_pos = 0, width_pos = 236, height_pos = 100\<rparr>,
      \<lparr>top_pos = 0, left_pos = 0, width_pos = 236, height_pos = 150\<rparr>,
      \<lparr>top_pos = 0, left_pos = 0, width_pos = 236, height_pos = 80\<rparr>]"
  by (simp add: renderedPositions_def getPositions_def itemsToRender_def measurementCache_def
      sampleEnv_def sampleGrid_def sampleProps_def sampleState_def sampleHeap_def
      cache_has_def cache_get_def truthy_item_def)

subsection \<open>Virtualization\<close>

lemma sample_viewport:
  "viewportTop sampleEnv sampleGrid = 750 \<and> viewportBottom sampleEnv sampleGrid = 1750"
  by (simp add: viewportTop_def viewportBottom_def sampleEnv_def sampleGrid_def sampleProps_def
      sampleState_def)



lemma sampleEnv_arithmetic:
  "add_num sampleEnv a b = a + b \<and> sub_num sampleEnv a b = a - b \<and> mul_num sampleEnv a b = a * b"
  by (simp add: sampleEnv_def)







text \<open>
  Claim C7. When virtualization is requested and no scroll container is configured,
  every laid-out item is rendered, whatever the scroll offset and the item's position;
  \<open>renderMasonryComponent\<close> has no failing branch.
\<close>

theorem no_scroll_container_renders_every_item:
  assumes "virtualize (props c)" and "scrollContainer (props c) = None"
  shows "renderMasonryComponent env c isRtl item idx p = Some (itemComponent isRtl item idx p)"
  using assms by (simp add: renderMasonryComponent_def isVisible_def)

text \<open>Without a scroll container the item far above the window is rendered.\<close>

theorem no_scroll_container_witness:
  "top_pos (samplePosition 0) + height_pos (samplePosition 0) < viewportTop sampleEnv noContainerGrid
   \<and> renderMasonryComponent sampleEnv noContainerGrid False (Some 1) 0 (samplePosition 0)
      = Some (itemComponent False (Some 1) 0 (samplePosition 0))"
  using no_scroll_container_renders_every_item
    [of noContainerGrid sampleEnv False "Some 1" 0 "samplePosition 0"]
  by (simp add: noContainerGrid_def sampleGrid_def sampleProps_def sampleState_def
      samplePosition_def viewportTop_def sampleEnv_def)

text \<open>
  Claim C10. When the buffer factor is zero, with virtualization on and a scroll
  container configured, every item counts as visible and is rendered, whatever the
  overrides of the top and bottom bounds are.
\<close>

theorem zero_buffer_factor_renders_every_item:
  assumes "virtualize (props c)" and "scrollContainer (props c) \<noteq> None"
    and "virtualBufferFactor (props c) = 0"
  shows "isVisible env c p
       \<and> renderMasonryComponent env c isRtl item idx p = Some (itemComponent isRtl item idx p)"
  using assms by (simp add: renderMasonryComponent_def isVisible_def)

text \<open>With both bounds overridden by 100 pixels, the item above the window is rendered.\<close>

theorem zero_buffer_factor_witness:
  "virtualBoundsTop (props zeroFactorGrid) = Some 100
   \<and> virtualBoundsBottom (props zeroFactorGrid) = Some 100
   \<and> top_pos (samplePosition 0) + height_pos (samplePosition 0) < viewportTop sampleEnv zeroFactorGrid
   \<and> renderMasonryComponent sampleEnv zeroFactorGrid False (Some 1) 0 (samplePosition 0)
      = Some (itemComponent False (Some 1) 0 (samplePosition 0))"
  using zero_buffer_factor_renders_every_item
    [of zeroFactorGrid sampleEnv "samplePosition 0" False "Some 1" 0]
  by (simp add: zeroFactorGrid_def sampleGrid_def sampleProps_def sampleState_def
      samplePosition_def viewportTop_def sampleEnv_def)

subsection \<open>Resetting the stores\<close>

text \<open>
  Claim C2. When the width recorded by the previous update was known and the current
  width differs from it, \<open>componentDidUpdate\<close> resets the measurement store and the
  position store: right afterwards \<open>has(item)\<close> is false for every item, in both stores.
\<close>

theorem width_change_resets_both_stores:
  assumes "width prevState = Some w" and "width (state c) \<noteq> Some w"
  shows "\<not> cache_has (measurementCache (fst (componentDidUpdate prevState c))) item
       \<and> \<not> cache_has (positionCache (fst (componentDidUpdate prevState c))) item"
  using assms
  by (simp add: componentDidUpdate_def Let_def measurementCache_def positionCache_def
      measurements_resetMeasurements positions_resetPositions measurements_resetPositions
      cache_has_empty)

text \<open>The width goes from 600 to 900: item 1, cached in both stores, is in neither afterwards.\<close>

theorem width_change_witness:
  "cache_has (measurementCache positionedGrid) (Some 1)
   \<and> cache_has (positionCache positionedGrid) (Some 1)
   \<and> \<not> cache_has (measurementCache
          (fst (componentDidUpdate (sampleState\<lparr>width := Some 600\<rparr>) positionedGrid))) (Some 1)
   \<and> \<not> cache_has (positionCache
          (fst (componentDidUpdate (sampleState\<lparr>width := Some 600\<rparr>) positionedGrid))) (Some 1)"
  using width_change_resets_both_stores
    [of "sampleState\<lparr>width := Some 600\<rparr>" 600 positionedGrid "Some 1"]
  by (simp add: sampleGrid_def sampleState_def positionedGrid_def samplePosition_def sampleHeap_def
      measurementCache_def positionCache_def cache_has_def)

text \<open>
  Claim C6. After \<open>reflow()\<close>, \<open>has(item)\<close> is false for every item in the measurement
  store of the state, in the position store, and in the measurement store named by the
  props when there is one; a re-render is forced, and in it no item counts as measured:
  every item is to be measured again.
\<close>

theorem reflow_clears_every_store:
  "(\<forall>item. \<not> cache_has (measurementCache (fst (reflow env c))) item
          \<and> \<not> cache_has (positionCache (fst (reflow env c))) item
          \<and> (\<forall>r. measurementStore (props c) = Some r \<longrightarrow>
                 \<not> cache_has (measurements (heap (fst (reflow env c))) r) item))
   \<and> snd (reflow env c) = [ForceUpdate]
   \<and> props (fst (reflow env c)) = props c
   \<and> itemsToRender (fst (reflow env c)) = []
   \<and> itemsWithoutMeasurements (fst (reflow env c)) = items (props c)"
proof -
  have m: "measurementCache (fst (reflow env c)) = Map.empty"
    by (simp add: reflow_def Let_def measurementCache_def measureContainer_frame
        measurements_resetPositions measurements_resetMeasurements)
  have p: "positionCache (fst (reflow env c)) = Map.empty"
    by (simp add: reflow_def Let_def positionCache_def measureContainer_frame
        positions_resetPositions)
  have e: "measurementStore (props c) = Some r \<Longrightarrow>
      measurements (heap (fst (reflow env c))) r = Map.empty" for r
    by (simp add: reflow_def Let_def measureContainer_frame
        measurements_resetPositions measurements_resetMeasurements)
  have q: "props (fst (reflow env c)) = props c"
    by (simp add: reflow_def Let_def measureContainer_frame)
  show ?thesis
    using e by (simp add: m p q cache_has_empty itemsToRender_def itemsWithoutMeasurements_def)
      (simp add: reflow_def Let_def)
qed

lemma externalStore_fields:
  "measurementStore (props externalStoreGrid) = Some 5
   \<and> measurements (heap externalStoreGrid) 5 = [9 \<mapsto> 40]
   \<and> measurementCache externalStoreGrid = [1 \<mapsto> 100, 2 \<mapsto> 150, 3 \<mapsto> 80]
   \<and> positionCache externalStoreGrid = [1 \<mapsto> samplePosition 0]"
  by (simp add: externalStoreGrid_def positionedGrid_def sample_fields sampleState_fields
      sampleHeap_def measurementCache_def positionCache_def)

text \<open>
  The store named by the props (5) and the stores the grid holds (0 and 1) all have
  entries before the reflow and none after it.
\<close>

theorem reflow_witness:
  "cache_has (measurements (heap externalStoreGrid) 5) (Some 9)
   \<and> cache_has (measurementCache externalStoreGrid) (Some 1)
   \<and> cache_has (positionCache externalStoreGrid) (Some 1)
   \<and> \<not> cache_has (measurements (heap (fst (reflow sampleEnv externalStoreGrid))) 5) (Some 9)
   \<and> \<not> cache_has (measurementCache (fst (reflow sampleEnv externalStoreGrid))) (Some 1)
   \<and> \<not> cache_has (positionCache (fst (reflow sampleEnv externalStoreGrid))) (Some 1)"
proof -
  have before: "cache_has (measurements (heap externalStoreGrid) 5) (Some 9)
      \<and> cache_has (measurementCache externalStoreGrid) (Some 1)
      \<and> cache_has (positionCache externalStoreGrid) (Some 1)"
    by (simp add: externalStore_fields cache_has_def)
  have supplied: "measurementStore (props externalStoreGrid) = Some 5"
    by (simp add: externalStore_fields)
  from reflow_clears_every_store [of sampleEnv externalStoreGrid] supplied
  have "\<not> cache_has (measurements (heap (fst (reflow sampleEnv externalStoreGrid))) 5) (Some 9)
      \<and> \<not> cache_has (measurementCache (fst (reflow sampleEnv externalStoreGrid))) (Some 1)
      \<and> \<not> cache_has (positionCache (fst (reflow sampleEnv externalStoreGrid))) (Some 1)"
    by blast
  with before show ?thesis by blast
qed

subsection \<open>The recorded maximum height\<close>

lemma nextMaxHeight_ge: "ps \<noteq> [] \<Longrightarrow> m \<le> nextMaxHeight env ps m"
  by (simp add: nextMaxHeight_def Let_def)

lemma nextMaxHeight_Nil: "nextMaxHeight env [] m = 0"
  by (simp add: nextMaxHeight_def layoutHeight_def)

lemma maxHeight_render:
  "maxHeight (fst (render env isRtl c)) =
     (case width (state c) of
        None \<Rightarrow> maxHeight c
      | Some w \<Rightarrow> nextMaxHeight env (renderedPositions env c) (maxHeight c))"
  by (simp add: render_def Let_def renderedPositions_def split: option.splits prod.splits)

text \<open>
  Claim C3, as amended. A render pass that runs before the width is known, or that lays
  out at least one measured item, leaves the recorded maximum height at least as large
  as it was; a pass with the width known that lays out no item sets it to 0.
\<close>

theorem maxHeight_render_pass:
  "(width (state c) = None \<or> renderedPositions env c \<noteq> [] \<longrightarrow>
      maxHeight c \<le> maxHeight (fst (render env isRtl c)))
   \<and> (width (state c) \<noteq> None \<and> renderedPositions env c = [] \<longrightarrow>
      maxHeight (fst (render env isRtl c)) = 0)"
  by (auto simp: maxHeight_render nextMaxHeight_Nil nextMaxHeight_ge split: option.splits)

lemma emptied_fields:
  "width (state emptiedGrid) = Some 900 \<and> maxHeight emptiedGrid = 400
   \<and> renderedPositions sampleEnv emptiedGrid = []"
  by (simp add: emptiedGrid_def sample_fields sampleState_fields renderedPositions_def
      getPositions_def itemsToRender_def sampleEnv_def)

text \<open>
  The sample grid goes from 0 to 150, the height of its tallest item; the grid without
  items goes from 400 to 0.
\<close>

theorem maxHeight_render_pass_witness:
  "maxHeight sampleGrid = 0 \<and> maxHeight (fst (render sampleEnv False sampleGrid)) = 150
   \<and> maxHeight emptiedGrid = 400 \<and> maxHeight (fst (render sampleEnv False emptiedGrid)) = 0"
  using maxHeight_render_pass [of sampleGrid sampleEnv False]
    maxHeight_render_pass [of emptiedGrid sampleEnv False]
  by (simp add: maxHeight_render sample_renderedPositions sample_fields sampleState_fields
      emptied_fields nextMaxHeight_def layoutHeight_def sampleEnv_arithmetic)

text \<open>
  Claim C3 as stated fails: the first pass over the sample grid records 150; the caller
  then passes an empty item list, and the next pass records 0.
\<close>

theorem maxHeight_decreases:
  "maxHeight (fst (render sampleEnv False sampleGrid)) = 150
   \<and> maxHeight (fst (render sampleEnv False
        (step sampleEnv (fst (render sampleEnv False sampleGrid))
           (ReceiveProps (sampleProps\<lparr>items := []\<rparr>))))) = 0"
proof
  show "maxHeight (fst (render sampleEnv False sampleGrid)) = 150"
    by (simp add: maxHeight_render sample_renderedPositions sample_fields sampleState_fields
        nextMaxHeight_def layoutHeight_def sampleEnv_arithmetic)
  have w: "width (state (step sampleEnv (fst (render sampleEnv False sampleGrid))
           (ReceiveProps (sampleProps\<lparr>items := []\<rparr>)))) = Some 900"
    by (simp add: derive_def mergeDerived_def render_frame sample_fields sampleState_def
        split: option.splits)
  have p: "renderedPositions sampleEnv (step sampleEnv (fst (render sampleEnv False sampleGrid))
           (ReceiveProps (sampleProps\<lparr>items := []\<rparr>))) = []"
    by (simp add: renderedPositions_def getPositions_def itemsToRender_def derive_def sampleEnv_def)
  show "maxHeight (fst (render sampleEnv False
        (step sampleEnv (fst (render sampleEnv False sampleGrid))
           (ReceiveProps (sampleProps\<lparr>items := []\<rparr>))))) = 0"
    by (simp only: maxHeight_render w p option.case nextMaxHeight_Nil)
qed

subsection \<open>The fetch-in-progress flag\<close>

lemma compareItems_iff:
  "compareItems its sits i \<longleftrightarrow>
     (\<exists>j. i \<le> j \<and> j < length its
          \<and> (js_nth sits j = None \<or> js_nth its j \<noteq> js_nth sits j \<or> length its < length sits))"
proof (induction its sits i rule: compareItems.induct)
  case (1 its sits i)
  show ?case
  proof (cases "i < length its")
    case False
    then show ?thesis by (subst compareItems.simps) auto
  next
    case True
    show ?thesis
    proof (cases "js_nth sits i = None \<or> js_nth its i \<noteq> js_nth sits i \<or> length its < length sits")
      case hit: True
      with True have "compareItems its sits i" by (subst compareItems.simps) auto
      moreover from hit True have "\<exists>j. i \<le> j \<and> j < length its
          \<and> (js_nth sits j = None \<or> js_nth its j \<noteq> js_nth sits j \<or> length its < length sits)"
        by (intro exI [of _ i]) simp
      ultimately show ?thesis by simp
    next
      case miss: False
      with True have "compareItems its sits i = compareItems its sits (i + 1)"
        by (subst compareItems.simps) auto
      also from miss True have "\<dots> \<longleftrightarrow> (\<exists>j. i + 1 \<le> j \<and> j < length its
          \<and> (js_nth sits j = None \<or> js_nth its j \<noteq> js_nth sits j \<or> length its < length sits))"
        by (intro "1.IH") auto
      also have "\<dots> \<longleftrightarrow> (\<exists>j. i \<le> j \<and> j < length its
          \<and> (js_nth sits j = None \<or> js_nth its j \<noteq> js_nth sits j \<or> length its < length sits))"
      proof
        assume "\<exists>j. i + 1 \<le> j \<and> j < length its
          \<and> (js_nth sits j = None \<or> js_nth its j \<noteq> js_nth sits j \<or> length its < length sits)"
        then obtain j where "i + 1 \<le> j" and "j < length its"
          and "js_nth sits j = None \<or> js_nth its j \<noteq> js_nth sits j \<or> length its < length sits"
          by blast
        then show "\<exists>j. i \<le> j \<and> j < length its
          \<and> (js_nth sits j = None \<or> js_nth its j \<noteq> js_nth sits j \<or> length its < length sits)"
          by (intro exI [of _ j]) simp
      next
        assume "\<exists>j. i \<le> j \<and> j < length its
          \<and> (js_nth sits j = None \<or> js_nth its j \<noteq> js_nth sits j \<or> length its < length sits)"
        then obtain j where j: "i \<le> j" "j < length its"
          and c: "js_nth sits j = None \<or> js_nth its j \<noteq> js_nth sits j \<or> length its < length sits"
          by blast
        from c miss have "j \<noteq> i" by blast
        with j have "i + 1 \<le> j" by simp
        with j c show "\<exists>j. i + 1 \<le> j \<and> j < length its
          \<and> (js_nth sits j = None \<or> js_nth its j \<noteq> js_nth sits j \<or> length its < length sits)"
          by (intro exI [of _ j]) simp
      qed
      finally show ?thesis .
    qed
  qed
qed

text \<open>When the loop and the empty-list test both pass, the two lists are the same.\<close>

lemma no_reset_same_items:
  assumes "\<not> compareItems its sits 0" and "\<not> (length its = 0 \<and> length sits > 0)"
  shows "its = sits"
proof (cases "its = []")
  case True
  with assms(2) show ?thesis by simp
next
  case False
  from assms(1) have all: "\<forall>j < length its. js_nth sits j \<noteq> None \<and> js_nth its j = js_nth sits j
      \<and> \<not> length its < length sits"
    by (auto simp: compareItems_iff)
  then have in_range: "\<forall>j < length its. j < length sits"
    by (auto simp: js_nth_def split: if_splits)
  from False have "length its - 1 < length its" by (cases its) simp_all
  with in_range have "length its - 1 < length sits" by blast
  then have le: "length its \<le> length sits" by linarith
  from False all have "\<not> length its < length sits" by (cases its) auto
  with le have len: "length its = length sits" by simp
  moreover from all len have "\<forall>j < length its. its ! j = sits ! j"
    by (auto simp: js_nth_def)
  ultimately show ?thesis by (simp add: list_eq_iff_nth_eq)
qed

lemma reset_iff_items_differ:
  assumes "None \<notin> set sits"
  shows "(compareItems its sits 0 \<or> (length its = 0 \<and> length sits > 0)) \<longleftrightarrow> its \<noteq> sits"
proof
  assume "compareItems its sits 0 \<or> (length its = 0 \<and> length sits > 0)"
  then show "its \<noteq> sits"
  proof
    assume "compareItems its sits 0"
    then obtain j where j: "j < length its"
      and c: "js_nth sits j = None \<or> js_nth its j \<noteq> js_nth sits j \<or> length its < length sits"
      by (auto simp: compareItems_iff)
    show ?thesis
    proof
      assume eq: "its = sits"
      with j have "sits ! j \<in> set sits" by simp
      with assms have "sits ! j \<noteq> None" by metis
      with c j eq show False by (simp add: js_nth_def)
    qed
  next
    assume "length its = 0 \<and> length sits > 0"
    then show ?thesis by auto
  qed
next
  assume "its \<noteq> sits"
  then show "compareItems its sits 0 \<or> (length its = 0 \<and> length sits > 0)"
    using no_reset_same_items [of its sits] by blast
qed

lemma isFetching_derive:
  "isFetching (state (derive c)) \<longleftrightarrow>
     isFetching (state c)
     \<and> \<not> (compareItems (items (props c)) (items_st (state c)) 0
          \<or> (length (items (props c)) = 0 \<and> length (items_st (state c)) > 0))"
  by (simp add: derive_def mergeDerived_def getDerivedStateFromProps_def Let_def)

lemma items_derive: "items_st (state (derive c)) = items (props c) \<and> props (derive c) = props c"
proof -
  have "items_st (state (derive c)) = items (props c)"
  proof (cases "getDerivedStateFromProps (props c) (heap c) (state c)")
    case None
    then have "\<not> compareItems (items (props c)) (items_st (state c)) 0"
      and "\<not> (length (items (props c)) = 0 \<and> length (items_st (state c)) > 0)"
      by (auto simp: getDerivedStateFromProps_def Let_def split: if_splits)
    then have "items (props c) = items_st (state c)" by (rule no_reset_same_items)
    with None show ?thesis by (simp add: derive_def mergeDerived_def)
  next
    case (Some d)
    then have "items_d d = items (props c)"
      by (auto simp: getDerivedStateFromProps_def Let_def split: if_splits)
    with Some show ?thesis by (simp add: derive_def mergeDerived_def)
  qed
  then show ?thesis by (simp add: derive_def)
qed

lemma derive_same_items:
  assumes "items_st (state c) = items (props c)" and "None \<notin> set (items (props c))"
  shows "isFetching (state (derive c)) = isFetching (state c)"
  using assms reset_iff_items_differ [of "items_st (state c)" "items (props c)"]
  by (simp add: isFetching_derive)

text \<open>
  Claim C4, as amended. Once a fetch is in progress, with the state's items those of the
  props and no entry \<open>undefined\<close>, the flag is still set after an event unless the event
  is a props update whose item sequence differs from the current one (in length or in
  an element, compared by reference); every such update clears it. Each event leaves
  the state's items equal to those of the props.
\<close>

theorem fetching_flag_released_by_changed_items:
  assumes "isFetching (state c)" and "items_st (state c) = items (props c)"
    and "None \<notin> set (items (props c))"
  shows "(isFetching (state (step env c e)) \<longleftrightarrow> (\<forall>p. e = ReceiveProps p \<longrightarrow> items p = items (props c)))
       \<and> items_st (state (step env c e)) = items (props (step env c e))"
proof (cases e)
  case (ReceiveProps p)
  from assms have "isFetching (state (derive (c\<lparr>props := p\<rparr>))) \<longleftrightarrow> items p = items (props c)"
    using reset_iff_items_differ [of "items_st (state c)" "items p"]
    by (auto simp: isFetching_derive)
  with ReceiveProps show ?thesis by (simp add: items_derive)
next
  case FetchMore
  with assms derive_same_items [of "fst (fetchMore c)"] show ?thesis
    by (simp add: items_derive fetchMore_def)
next
  case HandleResize
  with assms derive_same_items [of "handleResize c"] show ?thesis
    by (simp add: items_derive handleResize_def split: option.splits)
next
  case UpdateScrollPosition
  with assms derive_same_items [of "updateScrollPosition env c"] show ?thesis
    by (simp add: items_derive updateScrollPosition_def split: option.splits)
next
  case (AnimationFrame b)
  with assms derive_same_items [of "c\<lparr>state := (state c)\<lparr>hasPendingMeasurements := b\<rparr>\<rparr>"] show ?thesis
    by (simp add: items_derive)
next
  case Reflow
  with assms derive_same_items [of "fst (reflow env c)"] show ?thesis
    by (simp add: items_derive reflow_def Let_def measureContainer_frame)
next
  case ComponentDidMount
  with assms derive_same_items [of "componentDidMount env c"] show ?thesis
    by (simp add: items_derive componentDidMount_def Let_def measureContainer_frame)
next
  case (ComponentDidUpdate prevState)
  with assms show ?thesis by (simp add: componentDidUpdate_def Let_def)
next
  case (SetGridWrapperRef g)
  with assms show ?thesis by simp
next
  case MeasureContainer
  with assms show ?thesis by (simp add: measureContainer_frame)
next
  case (Render isRtl)
  with assms show ?thesis by (simp add: render_frame)
next
  case (ItemMeasured x clientHeight)
  with assms show ?thesis by (simp add: setMeasurement_def Let_def)
next
  case (HeightsObserved h triggerUpdate)
  with assms derive_same_items [of "c\<lparr>heap := h\<rparr>"] show ?thesis
    by (simp add: items_derive)
qed

text \<open>
  After \<open>fetchMore\<close> on the sample grid the flag survives a scroll update and is cleared
  by the arrival of a fourth item.
\<close>

theorem fetching_flag_witness:
  "isFetching (state (fst (fetchMore sampleGrid)))
   \<and> isFetching (state (step sampleEnv (fst (fetchMore sampleGrid)) UpdateScrollPosition))
   \<and> \<not> isFetching (state (step sampleEnv (fst (fetchMore sampleGrid))
          (ReceiveProps (sampleProps\<lparr>items := [Some 1, Some 2, Some 3, Some 4]\<rparr>))))"
  using fetching_flag_released_by_changed_items [of "fst (fetchMore sampleGrid)" sampleEnv UpdateScrollPosition]
    fetching_flag_released_by_changed_items [of "fst (fetchMore sampleGrid)" sampleEnv
      "ReceiveProps (sampleProps\<lparr>items := [Some 1, Some 2, Some 3, Some 4]\<rparr>)"]
  by (simp add: fetchMore_def sample_fields sampleState_fields sampleProps_fields)

text \<open>
  Claim C4 as stated fails, an items sequence being observed when a props update brings
  it: \<open>fetchMore\<close> on the sample grid asks for items from offset 3 and sets the flag; the
  next props update brings two of the three items, fewer than the offset, and clears it.
\<close>

theorem fetching_flag_released_by_shorter_items:
  "snd (fetchMore sampleGrid) = [LoadItems 3]
   \<and> isFetching (state (step sampleEnv sampleGrid FetchMore))
   \<and> length (items (sampleProps\<lparr>items := [Some 1, Some 2]\<rparr>)) < 3
   \<and> \<not> isFetching (state (step sampleEnv (step sampleEnv sampleGrid FetchMore)
          (ReceiveProps (sampleProps\<lparr>items := [Some 1, Some 2]\<rparr>))))"
proof (intro conjI)
  show "snd (fetchMore sampleGrid) = [LoadItems 3]"
    by (simp add: fetchMore_def sample_fields sampleProps_fields)
  have same: "items_st (state (fst (fetchMore sampleGrid))) = items (props (fst (fetchMore sampleGrid)))"
    and defined: "None \<notin> set (items (props (fst (fetchMore sampleGrid))))"
    by (simp_all add: fetchMore_def sample_fields sampleState_fields sampleProps_fields)
  from derive_same_items [OF same defined]
  show fetching: "isFetching (state (step sampleEnv sampleGrid FetchMore))"
    by (simp add: fetchMore_def sample_fields sampleProps_fields)
  show "length (items (sampleProps\<lparr>items := [Some 1, Some 2]\<rparr>)) < 3" by simp
  have "items_st (state (step sampleEnv sampleGrid FetchMore)) = [Some 1, Some 2, Some 3]"
    by (simp add: items_derive fetchMore_def sample_fields sampleProps_fields)
  then have "compareItems [Some 1, Some 2] (items_st (state (step sampleEnv sampleGrid FetchMore))) 0"
    by (auto simp: compareItems_iff)
  then show "\<not> isFetching (state (step sampleEnv (step sampleEnv sampleGrid FetchMore)
          (ReceiveProps (sampleProps\<lparr>items := [Some 1, Some 2]\<rparr>))))"
    by (simp add: isFetching_derive)
qed

subsection \<open>The batch of items to measure\<close>

lemma length_js_slice0: "0 \<le> e \<Longrightarrow> length (js_slice0 xs e) = min (nat e) (length xs)"
  by (auto simp: js_slice0_def Let_def min_def)

lemma indexOf_first:
  "i < length xs \<Longrightarrow> xs ! i = y \<Longrightarrow> (\<forall>j<i. xs ! j \<noteq> y) \<Longrightarrow> indexOf xs y = int i"
proof (induction xs arbitrary: i)
  case Nil
  then show ?case by simp
next
  case (Cons a as)
  show ?case
  proof (cases i)
    case 0
    with Cons.prems show ?thesis by simp
  next
    case (Suc k)
    with Cons.prems have "a \<noteq> y" by auto
    moreover from Suc Cons.prems have "k < length as" and "as ! k = y" by simp_all
    moreover from Suc Cons.prems have "\<forall>j<k. as ! j \<noteq> y" by auto
    ultimately have "indexOf as y = int k" and "a \<noteq> y" using Cons.IH by blast+
    with Suc show ?thesis by (simp add: Let_def)
  qed
qed

text \<open>The pending multi-column item is the first unmeasured item whose span is not 1.\<close>

lemma pending_item:
  assumes "getColumnSpanConfig (props c) = Some f" and "nextMultiColumnItem c = Some x"
  shows "\<exists>i<length (itemsWithoutMeasurements c).
           itemsWithoutMeasurements c ! i = Some x \<and> f (Some x) \<noteq> ColumnSpan 1
           \<and> (\<forall>j<i. f (itemsWithoutMeasurements c ! j) = ColumnSpan 1)"
proof -
  from assms have "find (\<lambda>item. f item \<noteq> ColumnSpan 1) (itemsWithoutMeasurements c) = Some (Some x)"
    by (auto simp: nextMultiColumnItem_def split: option.splits)
  then show ?thesis by (auto simp: find_Some_iff)
qed

lemma first_multi_column_item:
  assumes "getColumnSpanConfig (props c) = Some f"
    and "i < length (itemsWithoutMeasurements c)"
    and "itemsWithoutMeasurements c ! i = Some x"
    and "f (Some x) \<noteq> ColumnSpan 1"
    and "\<forall>j<i. f (itemsWithoutMeasurements c ! j) = ColumnSpan 1"
  shows "nextMultiColumnItem c = Some x \<and> nextMultiColumnItemIndex c = int i"
proof -
  from assms(2-5)
  have "find (\<lambda>item. f item \<noteq> ColumnSpan 1) (itemsWithoutMeasurements c) = Some (Some x)"
    by (auto simp: find_Some_iff intro!: exI [of _ i])
  with assms(1) have item: "nextMultiColumnItem c = Some x"
    by (simp add: nextMultiColumnItem_def)
  from assms(4,5) have "\<forall>j<i. itemsWithoutMeasurements c ! j \<noteq> Some x" by metis
  with assms(2,3) have "indexOf (itemsWithoutMeasurements c) (Some x) = int i"
    by (intro indexOf_first) simp_all
  with item show ?thesis by (simp add: nextMultiColumnItemIndex_def)
qed

lemma limit_with_batch:
  assumes "getColumnSpanConfig (props c) = Some f" and "nextMultiColumnItem c = Some x"
    and "\<not> isFlexibleWidthItem c x" and "positioningBatchSize env c w f x \<noteq> 0"
    and "nextMultiColumnItemIndex c \<le> positioningBatchSize env c w f x"
  shows "itemsToMeasureCount env c w = positioningBatchSize env c w f x + 1"
  using assms by (simp add: itemsToMeasureCount_def batchSize_def)

lemma limit_without_batch:
  assumes "\<not> (\<exists>f x. getColumnSpanConfig (props c) = Some f \<and> nextMultiColumnItem c = Some x
                  \<and> \<not> isFlexibleWidthItem c x \<and> positioningBatchSize env c w f x \<noteq> 0
                  \<and> nextMultiColumnItemIndex c \<le> positioningBatchSize env c w f x)"
  shows "itemsToMeasureCount env c w = minCols (props c)"
  using assms by (auto simp: itemsToMeasureCount_def batchSize_def split: option.splits if_splits)

text \<open>
  Claim C5, as amended. When the limit is not negative, the number of unmeasured items
  rendered for measurement is the smaller of the limit and the number of items that are
  truthy and unmeasured. The limit is the batch size plus one when there is a pending
  multi-column item that is not the flexible-width second item, its batch size (the
  \<open>itemsBatchSize\<close> of the positioning configuration, or the constant) is not zero, and its
  index among the unmeasured items is at most the batch size; in every other case the
  limit is the minimum column count. The pending multi-column item is the first
  unmeasured item whose column span configuration is not 1, and its index is its
  position among the unmeasured items.
\<close>

theorem items_to_measure_count:
  "(0 \<le> itemsToMeasureCount env c w \<longrightarrow>
      length (itemsToMeasure env c w) =
        min (nat (itemsToMeasureCount env c w))
            (length (filter (\<lambda>item. truthy_item item \<and> \<not> cache_has (measurementCache c) item)
                       (items (props c)))))
   \<and> (\<forall>f x. getColumnSpanConfig (props c) = Some f \<and> nextMultiColumnItem c = Some x
          \<and> \<not> isFlexibleWidthItem c x \<and> positioningBatchSize env c w f x \<noteq> 0
          \<and> nextMultiColumnItemIndex c \<le> positioningBatchSize env c w f x
        \<longrightarrow> itemsToMeasureCount env c w = positioningBatchSize env c w f x + 1)
   \<and> (\<not> (\<exists>f x. getColumnSpanConfig (props c) = Some f \<and> nextMultiColumnItem c = Some x
             \<and> \<not> isFlexibleWidthItem c x \<and> positioningBatchSize env c w f x \<noteq> 0
             \<and> nextMultiColumnItemIndex c \<le> positioningBatchSize env c w f x)
        \<longrightarrow> itemsToMeasureCount env c w = minCols (props c))
   \<and> (\<forall>f x. getColumnSpanConfig (props c) = Some f \<and> nextMultiColumnItem c = Some x
        \<longrightarrow> (\<exists>i<length (itemsWithoutMeasurements c).
               itemsWithoutMeasurements c ! i = Some x \<and> f (Some x) \<noteq> ColumnSpan 1
               \<and> (\<forall>j<i. f (itemsWithoutMeasurements c ! j) = ColumnSpan 1)))
   \<and> (\<forall>f x i. getColumnSpanConfig (props c) = Some f
          \<and> i < length (itemsWithoutMeasurements c)
          \<and> itemsWithoutMeasurements c ! i = Some x \<and> f (Some x) \<noteq> ColumnSpan 1
          \<and> (\<forall>j<i. f (itemsWithoutMeasurements c ! j) = ColumnSpan 1)
        \<longrightarrow> nextMultiColumnItem c = Some x \<and> nextMultiColumnItemIndex c = int i)
   \<and> itemsWithoutMeasurements c
       = filter (\<lambda>item. \<not> cache_has (measurementCache c) item) (items (props c))"
proof (intro conjI allI impI)
  assume "0 \<le> itemsToMeasureCount env c w"
  then show "length (itemsToMeasure env c w) =
        min (nat (itemsToMeasureCount env c w))
            (length (filter (\<lambda>item. truthy_item item \<and> \<not> cache_has (measurementCache c) item)
                       (items (props c))))"
    by (simp add: itemsToMeasure_def length_js_slice0)
next
  fix f x
  assume "getColumnSpanConfig (props c) = Some f \<and> nextMultiColumnItem c = Some x
          \<and> \<not> isFlexibleWidthItem c x \<and> positioningBatchSize env c w f x \<noteq> 0
          \<and> nextMultiColumnItemIndex c \<le> positioningBatchSize env c w f x"
  then show "itemsToMeasureCount env c w = positioningBatchSize env c w f x + 1"
    by (intro limit_with_batch) simp_all
next
  assume "\<not> (\<exists>f x. getColumnSpanConfig (props c) = Some f \<and> nextMultiColumnItem c = Some x
             \<and> \<not> isFlexibleWidthItem c x \<and> positioningBatchSize env c w f x \<noteq> 0
             \<and> nextMultiColumnItemIndex c \<le> positioningBatchSize env c w f x)"
  then show "itemsToMeasureCount env c w = minCols (props c)"
    by (rule limit_without_batch)
next
  fix f x
  assume "getColumnSpanConfig (props c) = Some f \<and> nextMultiColumnItem c = Some x"
  then show "\<exists>i<length (itemsWithoutMeasurements c).
               itemsWithoutMeasurements c ! i = Some x \<and> f (Some x) \<noteq> ColumnSpan 1
               \<and> (\<forall>j<i. f (itemsWithoutMeasurements c ! j) = ColumnSpan 1)"
    using pending_item [of c f x] by blast
next
  fix f x i
  assume h: "getColumnSpanConfig (props c) = Some f
          \<and> i < length (itemsWithoutMeasurements c)
          \<and> itemsWithoutMeasurements c ! i = Some x \<and> f (Some x) \<noteq> ColumnSpan 1
          \<and> (\<forall>j<i. f (itemsWithoutMeasurements c ! j) = ColumnSpan 1)"
  then have "nextMultiColumnItem c = Some x \<and> nextMultiColumnItemIndex c = int i"
    by (intro first_multi_column_item) blast+
  then show "nextMultiColumnItem c = Some x" and "nextMultiColumnItemIndex c = int i"
    by simp_all
next
  show "itemsWithoutMeasurements c
       = filter (\<lambda>item. \<not> cache_has (measurementCache c) item) (items (props c))"
    by (simp add: itemsWithoutMeasurements_def)
qed

lemma sample_measurements: "measurementCache sampleGrid = [1 \<mapsto> 100, 2 \<mapsto> 150, 3 \<mapsto> 80]"
  by (simp add: measurementCache_def sample_fields sampleState_fields sampleHeap_def)

lemma unmeasured_fields:
  "measurementCache unmeasuredGrid = [1 \<mapsto> 100, 2 \<mapsto> 150, 3 \<mapsto> 80]
   \<and> items (props unmeasuredGrid) = [Some 1, Some 2, Some 3, Some 4]
   \<and> getColumnSpanConfig (props unmeasuredGrid) = None \<and> minCols (props unmeasuredGrid) = 3"
  by (simp add: unmeasuredGrid_def measurementCache_def sample_fields sampleState_fields
      sampleProps_fields sampleHeap_def)

lemma multiColumn_fields:
  "measurementCache multiColumnGrid = [1 \<mapsto> 100, 2 \<mapsto> 150, 3 \<mapsto> 80]
   \<and> items (props multiColumnGrid)
       = [Some 1, Some 2, Some 3, Some 4, Some 5, Some 6, Some 7, Some 8, Some 9]
   \<and> getColumnSpanConfig (props multiColumnGrid)
       = Some (\<lambda>item. if item = Some 5 then ColumnSpan 2 else ColumnSpan 1)
   \<and> minCols (props multiColumnGrid) = 3
   \<and> getResponsiveModuleConfigForSecondItem (props multiColumnGrid) = None
   \<and> getModulePositioningConfig (props multiColumnGrid) = None"
  by (simp add: multiColumnGrid_def measurementCache_def sample_fields sampleState_fields
      sampleProps_def sampleHeap_def)

lemma multiColumn_unmeasured:
  "itemsWithoutMeasurements multiColumnGrid = [Some 4, Some 5, Some 6, Some 7, Some 8, Some 9]"
  by (simp add: itemsWithoutMeasurements_def multiColumn_fields cache_has_def)

lemma multiColumn_batch:
  "\<not> isFlexibleWidthItem multiColumnGrid x
   \<and> positioningBatchSize sampleEnv multiColumnGrid w f x = 5"
  by (simp add: isFlexibleWidthItem_def responsiveModuleConfigForSecondItem_def truthy_config_def
      positioningBatchSize_def multiColumn_fields sampleEnv_def)

text \<open>
  Six unmeasured items, the second spanning two columns, with the constant batch size
  5: the pending item is item 5 at index 1, the limit is 6 and six items are rendered
  for measurement. One unmeasured item and no column span configuration: the limit is
  3 and one item is rendered for measurement.
\<close>

theorem items_to_measure_count_witness:
  "nextMultiColumnItem multiColumnGrid = Some 5
   \<and> nextMultiColumnItemIndex multiColumnGrid = 1
   \<and> itemsToMeasureCount sampleEnv multiColumnGrid 900 = 6
   \<and> length (itemsToMeasure sampleEnv multiColumnGrid 900) = 6
   \<and> itemsToMeasureCount sampleEnv unmeasuredGrid 900 = 3
   \<and> length (itemsToMeasure sampleEnv unmeasuredGrid 900) = 1"
proof -
  let ?f = "\<lambda>item. if item = Some (5::nat) then ColumnSpan 2 else ColumnSpan 1"
  note multi = items_to_measure_count [of sampleEnv multiColumnGrid 900]
  note single = items_to_measure_count [of sampleEnv unmeasuredGrid 900]
  have config: "getColumnSpanConfig (props multiColumnGrid) = Some ?f"
    by (simp add: multiColumn_fields)
  have first: "1 < length (itemsWithoutMeasurements multiColumnGrid)
      \<and> itemsWithoutMeasurements multiColumnGrid ! 1 = Some 5 \<and> ?f (Some 5) \<noteq> ColumnSpan 1
      \<and> (\<forall>j<1. ?f (itemsWithoutMeasurements multiColumnGrid ! j) = ColumnSpan 1)"
    by (simp add: multiColumn_unmeasured)
  from multi config first
  have pending: "nextMultiColumnItem multiColumnGrid = Some 5
      \<and> nextMultiColumnItemIndex multiColumnGrid = int 1"
    by blast
  with multi config multiColumn_batch [of 5 900 ?f]
  have limit: "itemsToMeasureCount sampleEnv multiColumnGrid 900 = 6"
    by (simp del: One_nat_def)
  with multi have len: "length (itemsToMeasure sampleEnv multiColumnGrid 900) = 6"
    by (simp add: multiColumn_fields cache_has_def truthy_item_def)
  have "getColumnSpanConfig (props unmeasuredGrid) = None"
    by (simp add: unmeasured_fields)
  with single have limit': "itemsToMeasureCount sampleEnv unmeasuredGrid 900 = 3"
    by (simp add: unmeasured_fields)
  with single have len': "length (itemsToMeasure sampleEnv unmeasuredGrid 900) = 1"
    by (simp add: unmeasured_fields cache_has_def truthy_item_def)
  from pending limit len limit' len' show ?thesis by simp
qed

lemma zeroBatch_fields:
  "measurementCache zeroBatchGrid = [1 \<mapsto> 100, 2 \<mapsto> 150, 3 \<mapsto> 80]
   \<and> items (props zeroBatchGrid)
       = [Some 1, Some 2, Some 3, Some 4, Some 5, Some 6, Some 7, Some 8, Some 9]
   \<and> getColumnSpanConfig (props zeroBatchGrid)
       = Some (\<lambda>item. if item = Some 4 then ColumnSpan 2 else ColumnSpan 1)
   \<and> minCols (props zeroBatchGrid) = 3
   \<and> getResponsiveModuleConfigForSecondItem (props zeroBatchGrid) = None
   \<and> getModulePositioningConfig (props zeroBatchGrid)
       = Some (\<lambda>g m. Some \<lparr>itemsBatchSize = 0, whitespaceThreshold = None\<rparr>)"
  by (simp add: zeroBatchGrid_def measurementCache_def sample_fields sampleState_fields
      sampleProps_def sampleHeap_def)

lemma zeroBatch_unmeasured:
  "itemsWithoutMeasurements zeroBatchGrid = [Some 4, Some 5, Some 6, Some 7, Some 8, Some 9]"
  by (simp add: itemsWithoutMeasurements_def zeroBatch_fields cache_has_def)

lemma zeroBatch_pending:
  "nextMultiColumnItem zeroBatchGrid = Some 4 \<and> nextMultiColumnItemIndex zeroBatchGrid = 0"
  by (simp add: nextMultiColumnItem_def nextMultiColumnItemIndex_def zeroBatch_unmeasured
      zeroBatch_fields)

lemma zeroBatch_batch: "batchSize sampleEnv zeroBatchGrid 900 = Some 0"
  by (simp add: batchSize_def zeroBatch_pending zeroBatch_fields isFlexibleWidthItem_def
      responsiveModuleConfigForSecondItem_def truthy_config_def positioningBatchSize_def)

lemma flexible_fields:
  "measurementCache flexibleGrid = [1 \<mapsto> 100, 2 \<mapsto> 150, 3 \<mapsto> 80]
   \<and> items (props flexibleGrid) = [Some 4, Some 5, Some 6, Some 7, Some 8, Some 9, Some 10]
   \<and> getColumnSpanConfig (props flexibleGrid)
       = Some (\<lambda>item. if item = Some 5 then ColumnSpan 2 else ColumnSpan 1)
   \<and> minCols (props flexibleGrid) = 3
   \<and> getResponsiveModuleConfigForSecondItem (props flexibleGrid)
       = Some (\<lambda>item. Some (ModuleRange 2 4))
   \<and> getModulePositioningConfig (props flexibleGrid) = None"
  by (simp add: flexibleGrid_def measurementCache_def sample_fields sampleState_fields
      sampleProps_def sampleHeap_def)

lemma flexible_unmeasured:
  "itemsWithoutMeasurements flexibleGrid
     = [Some 4, Some 5, Some 6, Some 7, Some 8, Some 9, Some 10]"
  by (simp add: itemsWithoutMeasurements_def flexible_fields cache_has_def)

lemma flexible_pending:
  "nextMultiColumnItem flexibleGrid = Some 5 \<and> nextMultiColumnItemIndex flexibleGrid = 1"
  by (simp add: nextMultiColumnItem_def nextMultiColumnItemIndex_def flexible_unmeasured
      flexible_fields)

lemma flexible_batch: "isFlexibleWidthItem flexibleGrid 5 \<and> batchSize sampleEnv flexibleGrid 900 = None"
  by (simp add: batchSize_def flexible_pending flexible_fields isFlexibleWidthItem_def
      responsiveModuleConfigForSecondItem_def truthy_config_def truthy_item_def js_nth_def)

lemma negative_fields:
  "measurementCache negativeMinColsGrid = [1 \<mapsto> 100, 2 \<mapsto> 150, 3 \<mapsto> 80]
   \<and> items (props negativeMinColsGrid) = [Some 1, Some 2, Some 3, Some 4, Some 5, Some 6]
   \<and> getColumnSpanConfig (props negativeMinColsGrid) = None
   \<and> minCols (props negativeMinColsGrid) = - 1"
  by (simp add: negativeMinColsGrid_def measurementCache_def sample_fields sampleState_fields
      sampleProps_def sampleHeap_def)

text \<open>
  Claim C5 as stated fails in four ways. With one unmeasured item, no multi-column item
  and a minimum column count of 3, one item is rendered for measurement, not three.
  With a batch size of 0 and the pending multi-column item at index 0, within the
  window, three items are rendered, not one. With the pending multi-column item the
  flexible-width second item, at index 1 and the constant batch size 5, three items are
  rendered, not six. With a minimum column count of -1 and three unmeasured items, two
  items are rendered.
\<close>

theorem measured_batch_fails_as_stated:
  "(itemsWithoutMeasurements unmeasuredGrid = [Some 4]
    \<and> nextMultiColumnItem unmeasuredGrid = None
    \<and> minCols (props unmeasuredGrid) = 3
    \<and> length (itemsToMeasure sampleEnv unmeasuredGrid 900) = 1)
   \<and> (nextMultiColumnItem zeroBatchGrid = Some 4
    \<and> nextMultiColumnItemIndex zeroBatchGrid = 0
    \<and> batchSize sampleEnv zeroBatchGrid 900 = Some 0
    \<and> minCols (props zeroBatchGrid) = 3
    \<and> length (itemsToMeasure sampleEnv zeroBatchGrid 900) = 3)
   \<and> (nextMultiColumnItem flexibleGrid = Some 5
    \<and> nextMultiColumnItemIndex flexibleGrid = 1
    \<and> isFlexibleWidthItem flexibleGrid 5
    \<and> getModulePositioningConfig (props flexibleGrid) = None
    \<and> MULTI_COL_ITEMS_MEASURE_BATCH_SIZE sampleEnv = 5
    \<and> minCols (props flexibleGrid) = 3
    \<and> length (itemsToMeasure sampleEnv flexibleGrid 900) = 3)
   \<and> (itemsWithoutMeasurements negativeMinColsGrid = [Some 4, Some 5, Some 6]
    \<and> nextMultiColumnItem negativeMinColsGrid = None
    \<and> minCols (props negativeMinColsGrid) = - 1
    \<and> length (itemsToMeasure sampleEnv negativeMinColsGrid 900) = 2)"
proof -
  have few: "itemsWithoutMeasurements unmeasuredGrid = [Some 4]
    \<and> nextMultiColumnItem unmeasuredGrid = None
    \<and> minCols (props unmeasuredGrid) = 3
    \<and> length (itemsToMeasure sampleEnv unmeasuredGrid 900) = 1"
    by (simp add: itemsToMeasure_def itemsToMeasureCount_def batchSize_def
        nextMultiColumnItem_def itemsWithoutMeasurements_def unmeasured_fields js_slice0_def
        cache_has_def truthy_item_def)
  have zero: "nextMultiColumnItem zeroBatchGrid = Some 4
    \<and> nextMultiColumnItemIndex zeroBatchGrid = 0
    \<and> batchSize sampleEnv zeroBatchGrid 900 = Some 0
    \<and> minCols (props zeroBatchGrid) = 3
    \<and> length (itemsToMeasure sampleEnv zeroBatchGrid 900) = 3"
    by (simp add: itemsToMeasure_def itemsToMeasureCount_def zeroBatch_pending zeroBatch_batch
        zeroBatch_fields js_slice0_def cache_has_def truthy_item_def)
  have default_size: "MULTI_COL_ITEMS_MEASURE_BATCH_SIZE sampleEnv = 5"
    by (simp add: sampleEnv_def)
  have flexible: "nextMultiColumnItem flexibleGrid = Some 5
    \<and> nextMultiColumnItemIndex flexibleGrid = 1
    \<and> isFlexibleWidthItem flexibleGrid 5
    \<and> getModulePositioningConfig (props flexibleGrid) = None
    \<and> MULTI_COL_ITEMS_MEASURE_BATCH_SIZE sampleEnv = 5
    \<and> minCols (props flexibleGrid) = 3
    \<and> length (itemsToMeasure sampleEnv flexibleGrid 900) = 3"
    by (simp add: itemsToMeasure_def itemsToMeasureCount_def flexible_pending flexible_batch
        flexible_fields default_size js_slice0_def cache_has_def truthy_item_def)
  have negative: "itemsWithoutMeasurements negativeMinColsGrid = [Some 4, Some 5, Some 6]
    \<and> nextMultiColumnItem negativeMinColsGrid = None
    \<and> minCols (props negativeMinColsGrid) = - 1
    \<and> length (itemsToMeasure sampleEnv negativeMinColsGrid 900) = 2"
    by (simp add: itemsToMeasure_def itemsToMeasureCount_def batchSize_def
        nextMultiColumnItem_def itemsWithoutMeasurements_def negative_fields js_slice0_def
        cache_has_def truthy_item_def)
  show ?thesis
    by (rule conjI, rule few, rule conjI, rule zero, rule conjI, rule flexible, rule negative)
qed

subsection \<open>The scroll listener\<close>

lemma updateScrollContainer_listeners:
  "listeners s \<subseteq> set_option (scrollContainer_sc s) \<Longrightarrow>
   listeners (updateScrollContainer e s) = {e} \<and> scrollContainer_sc (updateScrollContainer e s) = Some e"
  by (auto simp: updateScrollContainer_def addEventListener_def removeEventListener_def Let_def
      split: option.splits)

lemma sc_step_invariant:
  "listeners s \<subseteq> set_option (scrollContainer_sc s) \<Longrightarrow>
   listeners (sc_step s ev) \<subseteq> set_option (scrollContainer_sc (sc_step s ev))"
proof (cases ev)
  case (DidMount p)
  assume inv: "listeners s \<subseteq> set_option (scrollContainer_sc s)"
  show ?thesis
  proof (cases "getScrollContainer p")
    case None
    with inv DidMount show ?thesis by (simp add: sc_componentDidMount_def)
  next
    case (Some e)
    with updateScrollContainer_listeners [OF inv, of e] DidMount show ?thesis
      by (simp add: sc_componentDidMount_def)
  qed
next
  case (DidUpdate p)
  assume inv: "listeners s \<subseteq> set_option (scrollContainer_sc s)"
  show ?thesis
  proof (cases "getScrollContainer p")
    case None
    with inv DidUpdate show ?thesis by (simp add: sc_componentDidUpdate_def)
  next
    case (Some e)
    with updateScrollContainer_listeners [OF inv, of e] inv DidUpdate show ?thesis
      by (simp add: sc_componentDidUpdate_def)
  qed
next
  case WillUnmount
  assume inv: "listeners s \<subseteq> set_option (scrollContainer_sc s)"
  with WillUnmount show ?thesis
    by (auto simp: sc_componentWillUnmount_def removeEventListener_def split: option.splits)
qed

lemma sc_foldl_invariant:
  "listeners s \<subseteq> set_option (scrollContainer_sc s) \<Longrightarrow>
   listeners (foldl sc_step s evs) \<subseteq> set_option (scrollContainer_sc (foldl sc_step s evs))"
proof (induction evs arbitrary: s)
  case Nil
  then show ?case by simp
next
  case (Cons ev evs)
  from Cons.prems have "listeners (sc_step s ev) \<subseteq> set_option (scrollContainer_sc (sc_step s ev))"
    by (rule sc_step_invariant)
  then show ?case using Cons.IH by simp
qed

lemma sc_run_invariant: "listeners (sc_run evs) \<subseteq> set_option (scrollContainer_sc (sc_run evs))"
  unfolding sc_run_def by (rule sc_foldl_invariant) (simp add: sc_initial_def)

text \<open>
  Claim C9. After any sequence of life-cycle events the scroll handler is registered on
  no element but the one the component tracks, so on at most one. An update that
  resolves to another element removes the handler from the old element and then adds it
  to the new one; an update that resolves to the tracked element changes nothing.
\<close>

theorem scroll_listener_single:
  "listeners (sc_run evs) \<subseteq> set_option (scrollContainer_sc (sc_run evs))
   \<and> card (listeners (sc_run evs)) \<le> 1
   \<and> (scrollContainer_sc s = Some old \<and> getScrollContainer p = Some new \<and> new \<noteq> old \<longrightarrow>
        calls (sc_componentDidUpdate p s) = calls s @ [RemoveEventListener old, AddEventListener new]
        \<and> scrollContainer_sc (sc_componentDidUpdate p s) = Some new)
   \<and> (scrollContainer_sc s = Some old \<and> getScrollContainer p = Some old \<longrightarrow>
        sc_componentDidUpdate p s = s)"
proof (intro conjI impI)
  show inv: "listeners (sc_run evs) \<subseteq> set_option (scrollContainer_sc (sc_run evs))"
    by (rule sc_run_invariant)
  have "finite (set_option (scrollContainer_sc (sc_run evs)))" by simp
  then have "card (listeners (sc_run evs)) \<le> card (set_option (scrollContainer_sc (sc_run evs)))"
    using inv by (rule card_mono)
  also have "\<dots> \<le> 1" by (cases "scrollContainer_sc (sc_run evs)") simp_all
  finally show "card (listeners (sc_run evs)) \<le> 1" .
next
  assume h: "scrollContainer_sc s = Some old \<and> getScrollContainer p = Some new \<and> new \<noteq> old"
  then show "calls (sc_componentDidUpdate p s) = calls s @ [RemoveEventListener old, AddEventListener new]"
    by (simp add: sc_componentDidUpdate_def updateScrollContainer_def addEventListener_def
        removeEventListener_def)
  from h show "scrollContainer_sc (sc_componentDidUpdate p s) = Some new"
    by (simp add: sc_componentDidUpdate_def updateScrollContainer_def addEventListener_def
        removeEventListener_def)
next
  assume "scrollContainer_sc s = Some old \<and> getScrollContainer p = Some old"
  then show "sc_componentDidUpdate p s = s"
    by (simp add: sc_componentDidUpdate_def)
qed

text \<open>
  Mounted on element 7: an update to element 8 leaves the handler on 8 alone, after the
  calls add 7, remove 7, add 8; an update to 7 changes nothing.
\<close>

theorem scroll_listener_single_witness:
  "listeners (sc_run [DidMount (Accessor (Some 7)), DidUpdate (Accessor (Some 8))]) = {8}
   \<and> calls (sc_componentDidUpdate (Accessor (Some 8)) (sc_run [DidMount (Accessor (Some 7))]))
      = [AddEventListener 7, RemoveEventListener 7, AddEventListener 8]
   \<and> sc_componentDidUpdate (Accessor (Some 7)) (sc_run [DidMount (Accessor (Some 7))])
      = sc_run [DidMount (Accessor (Some 7))]"
  using scroll_listener_single [of "[DidMount (Accessor (Some 7)), DidUpdate (Accessor (Some 8))]"
          "sc_run [DidMount (Accessor (Some 7))]" 7 "Accessor (Some 8)" 8]
        scroll_listener_single [of "[]" "sc_run [DidMount (Accessor (Some 7))]" 7 "Accessor (Some 7)" 7]
  by (simp add: sc_run_def sc_initial_def sc_componentDidMount_def sc_componentDidUpdate_def
      updateScrollContainer_def addEventListener_def removeEventListener_def)

end
